theory Spec2Isabelle
  imports Main "HOL-Library.Word"
begin

section \<open>Machine types, status codes and pointers\<close>

text \<open>
  The containers are C structs with a flexible array member, allocated in one block
  (header then payload). The embedding fixes the LP64 data model: \<open>size_t\<close> is a
  64-bit unsigned word (\<open>+\<close> and \<open>*\<close> wrap around, comparisons are unsigned), \<open>int\<close>
  is a 32-bit word and a byte is an 8-bit word.
\<close>

type_synonym size_t = "64 word"
type_synonym c_int = "32 word"
type_synonym byte = "8 word"

text \<open>\<open>utils/status.h\<close>: the enumeration \<open>status_t\<close>, in declaration order.\<close>

datatype status_t =
  NO_ERROR | SEGFAULT | NO_SPACE | INVALID_SIZE | HEAP_FAILURE | INVALID_INSTANCE
  | INVALID_INDEX

text \<open>
  What a C operation can do instead of returning: read or write through a null pointer,
  access memory outside the block a pointer refers to, or increment an \<open>int\<close> beyond
  \<open>INT_MAX\<close>. Each is undefined behaviour in C; the embedding makes each one a value,
  so that no function of the model hides it.
\<close>

datatype fault = NullDereference | OutOfBounds | SignedOverflow

text \<open>
  A value of type \<open>void *\<close> or \<open>const char *\<close>: the null pointer, the address of a
  string literal, or the address of a heap object (the object itself stands for its
  address; the embedding has no aliasing between containers).
\<close>

datatype 'a pointer = Null | Str string | Obj 'a

text \<open>
  The result of a call of a non-void function: the value of the \<open>return\<close> statement
  that ended it, or nothing determinate when control reached the closing brace without
  one.
\<close>

datatype 'a returned = Value 'a | Indeterminate

section \<open>The Result envelope (\<open>utils/Result.h\<close>)\<close>

text \<open>
  \<open>struct Result\<close> holds the status \<open>ok\<close> and an anonymous union of the two pointers
  \<open>error_msg\<close> and \<open>data\<close>. The two members share their storage, so the record has one
  field for the union and both member names read it (\<open>data\<close> is written
  \<open>data_Result\<close>).
\<close>

record 'a Result =
  ok :: status_t
  union :: "'a pointer"

abbreviation error_msg :: "'a Result \<Rightarrow> 'a pointer" where
  "error_msg r \<equiv> union r"

abbreviation data_Result :: "'a Result \<Rightarrow> 'a pointer" where
  "data_Result r \<equiv> union r"

text \<open>
  \<open>get_data_p(Result *from, void **to)\<close>. The argument \<open>from\<close> is \<open>None\<close> for a null
  pointer; \<open>to\<close> is \<open>None\<close> for a null pointer and \<open>Some v\<close> for the address of a slot
  that holds \<open>v\<close>. The function returns its \<open>const char *\<close> result and the slot after
  the call.
\<close>

definition get_data_p ::
  "'a Result option \<Rightarrow> 'a pointer option \<Rightarrow> 'a pointer \<times> 'a pointer option" where
  "get_data_p from to =
     (case (from, to) of
        (None, _) \<Rightarrow> (Str ''ValueError: cannot access a null pointer.\<newline>'', to)
      | (_, None) \<Rightarrow> (Str ''ValueError: cannot access a null pointer.\<newline>'', to)
      | (Some r, Some _) \<Rightarrow>
          if ok r \<noteq> NO_ERROR then (error_msg r, Some Null)
          else (Null, Some (data_Result r)))"

text \<open>
  \<open>get_data(Result from, void **to)\<close>, the by-value variant. On failure it returns the
  message and does not touch the slot; on success it stores the payload and reaches the
  end of the function body without a \<open>return\<close>.
\<close>

definition get_data ::
  "'a Result \<Rightarrow> 'a pointer option \<Rightarrow> 'a pointer returned \<times> 'a pointer option" where
  "get_data from to =
     (case to of
        None \<Rightarrow> (Value Null, None)
      | Some v \<Rightarrow>
          if ok from \<noteq> NO_ERROR then (Value (error_msg from), Some v)
          else (Indeterminate, Some (data_Result from)))"

section \<open>The allocator and the byte-copy primitive\<close>

text \<open>
  \<open>malloc\<close> is a platform primitive. A \<open>heap\<close> says which requests it satisfies
  (\<open>grants\<close>) and what a fresh block holds before anything is written to it: the
  indeterminate header words (\<open>junk_field\<close>, by position in the header) and the
  indeterminate payload cells (\<open>junk_int\<close>, \<open>junk_byte\<close>, by position in the payload).
  \<open>malloc h n\<close> is \<open>None\<close> for the null pointer and otherwise the number of bytes of
  the fresh block.
\<close>

record heap =
  grants :: "size_t \<Rightarrow> bool"
  junk_field :: "nat \<Rightarrow> size_t"
  junk_int :: "nat \<Rightarrow> c_int"
  junk_byte :: "nat \<Rightarrow> byte"

definition malloc :: "heap \<Rightarrow> size_t \<Rightarrow> nat option" where
  "malloc h n = (if grants h n then Some (unat n) else None)"

definition sizeof_int :: size_t where
  "sizeof_int = 4"

text \<open>
  \<open>memcpy(dst, src, n)\<close> on \<open>int\<close> cells, for \<open>n\<close> a multiple of \<open>sizeof(int)\<close> (every
  call of the int containers passes \<open>count * sizeof(int)\<close>): the first
  \<open>n / sizeof(int)\<close> cells of \<open>dst\<close> are overwritten by those of \<open>src\<close>. A copy of
  zero bytes touches neither pointer. Reading beyond the source or writing beyond the
  destination is a fault.
\<close>

definition memcpy_int ::
  "c_int list \<Rightarrow> c_int list option \<Rightarrow> size_t \<Rightarrow> fault + c_int list" where
  "memcpy_int dst src n =
     (let k = unat n div unat sizeof_int in
      if k = 0 then Inr dst
      else case src of
             None \<Rightarrow> Inl NullDereference
           | Some s \<Rightarrow>
               if k \<le> length s \<and> k \<le> length dst then Inr (take k s @ drop k dst)
               else Inl OutOfBounds)"

text \<open>
  \<open>memcpy(dst + off, src, n)\<close> on bytes: \<open>n\<close> bytes of \<open>dst\<close> from offset \<open>off\<close> are
  overwritten by the first \<open>n\<close> bytes of \<open>src\<close>.
\<close>

definition memcpy_bytes ::
  "byte list \<Rightarrow> nat \<Rightarrow> byte list option \<Rightarrow> size_t \<Rightarrow> fault + byte list" where
  "memcpy_bytes dst off src n =
     (let k = unat n in
      if k = 0 then Inr dst
      else case src of
             None \<Rightarrow> Inl NullDereference
           | Some s \<Rightarrow>
               if k \<le> length s \<and> off + k \<le> length dst
               then Inr (take off dst @ take k s @ drop (off + k) dst)
               else Inl OutOfBounds)"

section \<open>Plain array of integers (\<open>int/Array.h\<close>)\<close>

text \<open>\<open>struct Array_int { size_t capacity; int data[]; }\<close>\<close>

record Array_int =
  capacity_Array_int :: size_t
  data_Array_int :: "c_int list"

definition sizeof_Array_int :: size_t where
  "sizeof_Array_int = 8"

text \<open>
  A fresh block of \<open>nbytes\<close> bytes seen as a \<open>struct Array_int\<close>: the header is
  indeterminate and the payload has as many cells as fit behind the header. A block
  shorter than the header cannot take the write of \<open>capacity\<close>.
\<close>

definition fresh_Array_int :: "heap \<Rightarrow> nat \<Rightarrow> fault + Array_int" where
  "fresh_Array_int h nbytes =
     (if nbytes < unat sizeof_Array_int then Inl OutOfBounds
      else Inr \<lparr>capacity_Array_int = junk_field h 0,
                data_Array_int =
                  map (junk_int h)
                    [0 ..< (nbytes - unat sizeof_Array_int) div unat sizeof_int]\<rparr>)"

text \<open>
  \<open>new_Array_int(int *data, size_t size, size_t capacity)\<close>. The argument \<open>data\<close> is
  \<open>None\<close> for a null pointer and \<open>Some xs\<close> for the address of an array holding \<open>xs\<close>.
\<close>

definition new_Array_int ::
  "heap \<Rightarrow> c_int list option \<Rightarrow> size_t \<Rightarrow> size_t \<Rightarrow> fault + Array_int Result" where
  "new_Array_int h data size0 capacity =
     (let size1 = (if data = None then 0 else size0) in
      if capacity < size1 then
        Inr \<lparr>ok = INVALID_SIZE,
             union = Str ''SizeError: size is negative or capacity is less than size\<newline>''\<rparr>
      else
        case malloc h (sizeof_Array_int + capacity * sizeof_int) of
          None \<Rightarrow>
            Inr \<lparr>ok = HEAP_FAILURE,
                 union = Str ''AllocationError: Not enough memory in the heap''\<rparr>
        | Some nbytes \<Rightarrow>
            (case fresh_Array_int h nbytes of
               Inl f \<Rightarrow> Inl f
             | Inr result \<Rightarrow>
                 (case memcpy_int (data_Array_int result) data (size1 * sizeof_int) of
                    Inl f \<Rightarrow> Inl f
                  | Inr d \<Rightarrow>
                      Inr \<lparr>ok = NO_ERROR,
                           union = Obj (result\<lparr>capacity_Array_int := capacity,
                                               data_Array_int := d\<rparr>)\<rparr>)))"

text \<open>\<open>from_Array_int(Array_int *from)\<close>\<close>

definition from_Array_int :: "heap \<Rightarrow> Array_int option \<Rightarrow> fault + Array_int Result" where
  "from_Array_int h from =
     (case from of
        None \<Rightarrow>
          Inr \<lparr>ok = SEGFAULT, union = Str ''ValueError: cannot access a null pointer\<newline>''\<rparr>
      | Some a \<Rightarrow>
          new_Array_int h (Some (data_Array_int a)) (capacity_Array_int a)
            (capacity_Array_int a))"

text \<open>
  \<open>get_item_Array_int(Array_int *from, size_t index)\<close>. The result is \<open>None\<close> for the
  null pointer and \<open>Some i\<close> for the address \<open>from->data + i\<close> of cell \<open>i\<close> of the
  payload.
\<close>

definition get_item_Array_int :: "Array_int option \<Rightarrow> size_t \<Rightarrow> nat option" where
  "get_item_Array_int from index =
     (case from of
        None \<Rightarrow> None
      | Some a \<Rightarrow>
          if index < 0 \<or> index \<ge> capacity_Array_int a then None
          else Some (unat index))"

section \<open>Plain generic array (\<open>generic/Array.h\<close>)\<close>

text \<open>\<open>struct Array { size_t capacity, type_size; char data[]; }\<close>\<close>

record Array =
  capacity_Array :: size_t
  type_size_Array :: size_t
  data_Array :: "byte list"

definition sizeof_Array :: size_t where
  "sizeof_Array = 16"

definition fresh_Array :: "heap \<Rightarrow> nat \<Rightarrow> fault + Array" where
  "fresh_Array h nbytes =
     (if nbytes < unat sizeof_Array then Inl OutOfBounds
      else Inr \<lparr>capacity_Array = junk_field h 0, type_size_Array = junk_field h 1,
                data_Array = map (junk_byte h) [0 ..< nbytes - unat sizeof_Array]\<rparr>)"

text \<open>\<open>new_Array(void *data, size_t size, size_t capacity, size_t type_size)\<close>\<close>

definition new_Array ::
  "heap \<Rightarrow> byte list option \<Rightarrow> size_t \<Rightarrow> size_t \<Rightarrow> size_t \<Rightarrow> fault + Array Result" where
  "new_Array h data size0 capacity type_size =
     (let size1 = (if data = None then 0 else size0) in
      if capacity < size1 then
        Inr \<lparr>ok = INVALID_SIZE,
             union = Str ''SizeError: size is negative or capacity is less than size\<newline>''\<rparr>
      else if type_size \<le> 0 then
        Inr \<lparr>ok = INVALID_SIZE,
             union = Str ''SizeError: Type cannot have less than 1 byte\<newline>''\<rparr>
      else
        case malloc h (sizeof_Array + capacity * type_size) of
          None \<Rightarrow>
            Inr \<lparr>ok = HEAP_FAILURE,
                 union = Str ''AllocationError: Not enough memory in the heap''\<rparr>
        | Some nbytes \<Rightarrow>
            (case fresh_Array h nbytes of
               Inl f \<Rightarrow> Inl f
             | Inr result \<Rightarrow>
                 (case memcpy_bytes (data_Array result) 0 data (size1 * type_size) of
                    Inl f \<Rightarrow> Inl f
                  | Inr d \<Rightarrow>
                      Inr \<lparr>ok = NO_ERROR,
                           union = Obj (result\<lparr>capacity_Array := capacity,
                                               type_size_Array := type_size,
                                               data_Array := d\<rparr>)\<rparr>)))"

text \<open>\<open>from_Array(Array *from)\<close>\<close>

definition from_Array :: "heap \<Rightarrow> Array option \<Rightarrow> fault + Array Result" where
  "from_Array h from =
     (case from of
        None \<Rightarrow>
          Inr \<lparr>ok = SEGFAULT, union = Str ''ValueError: cannot access a null pointer\<newline>''\<rparr>
      | Some a \<Rightarrow>
          new_Array h (Some (data_Array a)) (capacity_Array a) (capacity_Array a)
            (type_size_Array a))"

text \<open>
  \<open>get_item_Array(Array *from, size_t index)\<close>. \<open>Some off\<close> is the address
  \<open>from->data + off\<close>, a byte offset into the payload.
\<close>

definition get_item_Array :: "Array option \<Rightarrow> size_t \<Rightarrow> nat option" where
  "get_item_Array from index =
     (case from of
        None \<Rightarrow> None
      | Some a \<Rightarrow>
          if index < 0 \<or> index \<ge> capacity_Array a then None
          else Some (unat (index * type_size_Array a)))"

section \<open>Strict array of integers (\<open>int/StrictArray.h\<close>)\<close>

text \<open>\<open>struct StrictArray_int { size_t size, capacity; int data[]; }\<close>\<close>

record StrictArray_int =
  size_StrictArray_int :: size_t
  capacity_StrictArray_int :: size_t
  data_StrictArray_int :: "c_int list"

definition sizeof_StrictArray_int :: size_t where
  "sizeof_StrictArray_int = 16"

definition fresh_StrictArray_int :: "heap \<Rightarrow> nat \<Rightarrow> fault + StrictArray_int" where
  "fresh_StrictArray_int h nbytes =
     (if nbytes < unat sizeof_StrictArray_int then Inl OutOfBounds
      else Inr \<lparr>size_StrictArray_int = junk_field h 0,
                capacity_StrictArray_int = junk_field h 1,
                data_StrictArray_int =
                  map (junk_int h)
                    [0 ..< (nbytes - unat sizeof_StrictArray_int) div unat sizeof_int]\<rparr>)"

text \<open>
  The loop \<open>for (int i = 0; i < size; i++) printf("%d, ", *((int*)data + i));\<close> of
  \<open>new_StrictArray_int\<close>, from the value \<open>i\<close> of its counter on. The counter is an
  \<open>int\<close>; the comparison converts it to \<open>size_t\<close>, which leaves a value between 0
  and \<open>INT_MAX\<close> as it is. Each round reads cell \<open>i\<close> of the caller's array \<open>xs\<close>,
  a fault when the array has no such cell, and increments the counter, a fault when it
  holds \<open>INT_MAX\<close>. The characters written to standard output are not recorded.
\<close>

definition INT_MAX :: nat where
  "INT_MAX = 2 ^ 31 - 1"

function print_loop :: "c_int list \<Rightarrow> size_t \<Rightarrow> nat \<Rightarrow> fault + unit" where
  "print_loop xs size1 i =
     (if i < unat size1 then
        if i < length xs then
          if i = INT_MAX then Inl SignedOverflow
          else print_loop xs size1 (Suc i)
        else Inl OutOfBounds
      else Inr ())"
  by pat_completeness auto
termination
  by (relation "measure (\<lambda>(xs, size1, i). unat size1 - i)") auto

declare print_loop.simps [simp del]

text \<open>
  The loop on the pointer \<open>data\<close>: with a null pointer the size has been forced to
  zero and no round runs.
\<close>

definition print_cells :: "c_int list option \<Rightarrow> size_t \<Rightarrow> fault + unit" where
  "print_cells data size1 =
     (case data of
        None \<Rightarrow> if 0 < unat size1 then Inl NullDereference else Inr ()
      | Some xs \<Rightarrow> print_loop xs size1 0)"

text \<open>
  \<open>new_StrictArray_int(int *data, size_t size, size_t cap)\<close>. After the copy the
  function prints the \<open>size\<close> cells it has just copied, reading them from \<open>data\<close>
  again.
\<close>

definition new_StrictArray_int ::
  "heap \<Rightarrow> c_int list option \<Rightarrow> size_t \<Rightarrow> size_t \<Rightarrow> fault + StrictArray_int Result" where
  "new_StrictArray_int h data size0 cap =
     (let size1 = (if data = None then 0 else size0) in
      if size1 < 0 \<or> cap < size1 then
        Inr \<lparr>ok = INVALID_SIZE,
             union = Str ''SizeError: size is negative or capacity is less than size\<newline>''\<rparr>
      else
        case malloc h (sizeof_StrictArray_int + sizeof_int * cap) of
          None \<Rightarrow>
            Inr \<lparr>ok = HEAP_FAILURE,
                 union = Str ''AllocationError: Not enough memory in the heap''\<rparr>
        | Some nbytes \<Rightarrow>
            (case fresh_StrictArray_int h nbytes of
               Inl f \<Rightarrow> Inl f
             | Inr result \<Rightarrow>
                 (case memcpy_int (data_StrictArray_int result) data (size1 * sizeof_int) of
                    Inl f \<Rightarrow> Inl f
                  | Inr d \<Rightarrow>
                      (case print_cells data size1 of
                         Inl f \<Rightarrow> Inl f
                       | Inr _ \<Rightarrow>
                           Inr \<lparr>ok = NO_ERROR,
                                union = Obj (result\<lparr>size_StrictArray_int := size1,
                                                    capacity_StrictArray_int := cap,
                                                    data_StrictArray_int := d\<rparr>)\<rparr>))))"

text \<open>\<open>from_StrictArray_int(StrictArray_int *from)\<close>\<close>

definition from_StrictArray_int ::
  "heap \<Rightarrow> StrictArray_int option \<Rightarrow> fault + StrictArray_int Result" where
  "from_StrictArray_int h from =
     (case from of
        None \<Rightarrow>
          Inr \<lparr>ok = SEGFAULT, union = Str ''ValueError: cannot access a null pointer\<newline>''\<rparr>
      | Some a \<Rightarrow>
          (case malloc h (sizeof_StrictArray_int + capacity_StrictArray_int a * sizeof_int) of
             None \<Rightarrow>
               Inr \<lparr>ok = HEAP_FAILURE,
                    union = Str ''AllocationError: Not enough memory in the heap\<newline>''\<rparr>
           | Some nbytes \<Rightarrow>
               (case fresh_StrictArray_int h nbytes of
                  Inl f \<Rightarrow> Inl f
                | Inr result \<Rightarrow>
                    (case memcpy_int (data_StrictArray_int result)
                            (Some (data_StrictArray_int a))
                            (capacity_StrictArray_int a * sizeof_int) of
                       Inl f \<Rightarrow> Inl f
                     | Inr d \<Rightarrow>
                         Inr \<lparr>ok = NO_ERROR,
                              union = Obj (result\<lparr>capacity_StrictArray_int :=
                                                    capacity_StrictArray_int a,
                                                  size_StrictArray_int :=
                                                    size_StrictArray_int a,
                                                  data_StrictArray_int := d\<rparr>)\<rparr>))))"

text \<open>
  \<open>push_back_StrictArray_int(StrictArray_int *arr, int data)\<close>. The function returns
  its status and the object behind \<open>arr\<close> after the call.
\<close>

definition push_back_StrictArray_int ::
  "StrictArray_int option \<Rightarrow> c_int \<Rightarrow> fault + status_t \<times> StrictArray_int option" where
  "push_back_StrictArray_int arr v =
     (case arr of
        None \<Rightarrow> Inr (SEGFAULT, None)
      | Some a \<Rightarrow>
          (let size1 = size_StrictArray_int a; cap = capacity_StrictArray_int a in
           if size1 = cap then Inr (NO_SPACE, Some a)
           else if unat size1 < length (data_StrictArray_int a) then
             Inr (NO_ERROR,
                  Some (a\<lparr>data_StrictArray_int := (data_StrictArray_int a)[unat size1 := v],
                           size_StrictArray_int := size_StrictArray_int a + 1\<rparr>))
           else Inl OutOfBounds))"

text \<open>\<open>pop_back_StrictArray_int(StrictArray_int *arr)\<close>\<close>

definition pop_back_StrictArray_int :: "StrictArray_int option \<Rightarrow> StrictArray_int option" where
  "pop_back_StrictArray_int arr =
     (case arr of
        None \<Rightarrow> None
      | Some a \<Rightarrow>
          if size_StrictArray_int a \<noteq> 0
          then Some (a\<lparr>size_StrictArray_int := size_StrictArray_int a - 1\<rparr>)
          else Some a)"

text \<open>\<open>clear_StrictArray_int(StrictArray_int *arr)\<close>\<close>

definition clear_StrictArray_int :: "StrictArray_int option \<Rightarrow> StrictArray_int option" where
  "clear_StrictArray_int arr =
     (case arr of
        None \<Rightarrow> None
      | Some a \<Rightarrow> Some (a\<lparr>size_StrictArray_int := 0\<rparr>))"

text \<open>
  \<open>get_item_StrictArray_int(StrictArray_int *arr, size_t index)\<close>. The condition reads
  \<open>arr->size\<close> with no test of \<open>arr\<close>.
\<close>

definition get_item_StrictArray_int ::
  "StrictArray_int option \<Rightarrow> size_t \<Rightarrow> fault + nat option" where
  "get_item_StrictArray_int arr index =
     (case arr of
        None \<Rightarrow> Inl NullDereference
      | Some a \<Rightarrow>
          if index < 0 \<or> index \<ge> size_StrictArray_int a then Inr None
          else Inr (Some (unat index)))"

section \<open>Strict generic array (\<open>generic/StrictArray.h\<close>)\<close>

text \<open>\<open>struct StrictArray { size_t size, capacity, type_size; char data[]; }\<close>\<close>

record StrictArray =
  size_StrictArray :: size_t
  capacity_StrictArray :: size_t
  type_size_StrictArray :: size_t
  data_StrictArray :: "byte list"

definition sizeof_StrictArray :: size_t where
  "sizeof_StrictArray = 24"

definition fresh_StrictArray :: "heap \<Rightarrow> nat \<Rightarrow> fault + StrictArray" where
  "fresh_StrictArray h nbytes =
     (if nbytes < unat sizeof_StrictArray then Inl OutOfBounds
      else Inr \<lparr>size_StrictArray = junk_field h 0, capacity_StrictArray = junk_field h 1,
                type_size_StrictArray = junk_field h 2,
                data_StrictArray = map (junk_byte h) [0 ..< nbytes - unat sizeof_StrictArray]\<rparr>)"

text \<open>
  \<open>new_StrictArray(void *data, size_t type_size, size_t size, size_t cap)\<close> (the element
  size comes second).
\<close>

definition new_StrictArray ::
  "heap \<Rightarrow> byte list option \<Rightarrow> size_t \<Rightarrow> size_t \<Rightarrow> size_t \<Rightarrow> fault + StrictArray Result"
  where
  "new_StrictArray h data type_size size0 cap =
     (let size1 = (if data = None then 0 else size0) in
      if size1 < 0 \<or> cap < size1 then
        Inr \<lparr>ok = INVALID_SIZE,
             union = Str ''SizeError: Size is negative or capacity is less than size\<newline>''\<rparr>
      else if type_size \<le> 0 then
        Inr \<lparr>ok = INVALID_SIZE,
             union = Str ''SizeError: Type cannot have less than 1 byte\<newline>''\<rparr>
      else
        case malloc h (sizeof_StrictArray + type_size * cap) of
          None \<Rightarrow>
            Inr \<lparr>ok = HEAP_FAILURE,
                 union = Str ''AllocationError: Not enough memory in the heap''\<rparr>
        | Some nbytes \<Rightarrow>
            (case fresh_StrictArray h nbytes of
               Inl f \<Rightarrow> Inl f
             | Inr result \<Rightarrow>
                 (case memcpy_bytes (data_StrictArray result) 0 data (size1 * type_size) of
                    Inl f \<Rightarrow> Inl f
                  | Inr d \<Rightarrow>
                      Inr \<lparr>ok = NO_ERROR,
                           union = Obj (result\<lparr>size_StrictArray := size1,
                                               capacity_StrictArray := cap,
                                               type_size_StrictArray := type_size,
                                               data_StrictArray := d\<rparr>)\<rparr>)))"

text \<open>
  \<open>from_StrictArray(StrictArray *from)\<close>. The function assigns \<open>capacity\<close> and \<open>size\<close>
  of the new object and copies \<open>size * type_size\<close> bytes; it does not assign
  \<open>type_size\<close>, which keeps what the fresh block held.
\<close>

definition from_StrictArray :: "heap \<Rightarrow> StrictArray option \<Rightarrow> fault + StrictArray Result" where
  "from_StrictArray h from =
     (case from of
        None \<Rightarrow>
          Inr \<lparr>ok = SEGFAULT, union = Str ''ValueError: cannot access a null pointer\<newline>''\<rparr>
      | Some a \<Rightarrow>
          (case malloc h (sizeof_StrictArray + capacity_StrictArray a * type_size_StrictArray a) of
             None \<Rightarrow>
               Inr \<lparr>ok = HEAP_FAILURE,
                    union = Str ''AllocationError: Not enough memory in the heap\<newline>''\<rparr>
           | Some nbytes \<Rightarrow>
               (case fresh_StrictArray h nbytes of
                  Inl f \<Rightarrow> Inl f
                | Inr result \<Rightarrow>
                    (case memcpy_bytes (data_StrictArray result) 0 (Some (data_StrictArray a))
                            (size_StrictArray a * type_size_StrictArray a) of
                       Inl f \<Rightarrow> Inl f
                     | Inr d \<Rightarrow>
                         Inr \<lparr>ok = NO_ERROR,
                              union = Obj (result\<lparr>capacity_StrictArray := capacity_StrictArray a,
                                                  size_StrictArray := size_StrictArray a,
                                                  data_StrictArray := d\<rparr>)\<rparr>))))"

text \<open>
  \<open>push_back_StrictArray(StrictArray *arr, void *value)\<close>. The first statement reads
  \<open>arr->size\<close> and \<open>arr->type_size\<close>; the test of \<open>arr\<close> comes after it. \<open>value\<close> is
  \<open>None\<close> for a null pointer and \<open>Some bs\<close> for the address of the bytes \<open>bs\<close>.
\<close>

definition push_back_StrictArray ::
  "StrictArray option \<Rightarrow> byte list option \<Rightarrow> fault + status_t \<times> StrictArray option" where
  "push_back_StrictArray arr v =
     (case arr of
        None \<Rightarrow> Inl NullDereference
      | Some a \<Rightarrow>
          (let size1 = size_StrictArray a; type_size = type_size_StrictArray a in
           if arr = None then Inr (SEGFAULT, arr)
           else if size1 = capacity_StrictArray a then Inr (NO_SPACE, Some a)
           else
             case memcpy_bytes (data_StrictArray a) (unat (type_size * size1)) v type_size of
               Inl f \<Rightarrow> Inl f
             | Inr d \<Rightarrow>
                 Inr (NO_ERROR,
                      Some (a\<lparr>data_StrictArray := d,
                               size_StrictArray := size_StrictArray a + 1\<rparr>))))"

text \<open>\<open>pop_back_StrictArray(StrictArray *arr)\<close>\<close>

definition pop_back_StrictArray :: "StrictArray option \<Rightarrow> StrictArray option" where
  "pop_back_StrictArray arr =
     (case arr of
        None \<Rightarrow> None
      | Some a \<Rightarrow>
          if size_StrictArray a \<noteq> 0
          then Some (a\<lparr>size_StrictArray := size_StrictArray a - 1\<rparr>)
          else Some a)"

text \<open>\<open>clear_StrictArray(StrictArray *arr)\<close>\<close>

definition clear_StrictArray :: "StrictArray option \<Rightarrow> StrictArray option" where
  "clear_StrictArray arr =
     (case arr of
        None \<Rightarrow> None
      | Some a \<Rightarrow> Some (a\<lparr>size_StrictArray := 0\<rparr>))"

text \<open>
  \<open>get_item(StrictArray *arr, size_t index)\<close>. The bounds test joins its two conditions
  with \<open>&&\<close>; since \<open>index < 0\<close> is false for an unsigned index, \<open>arr->size\<close> is not
  read, and the returned address reads \<open>arr->type_size\<close> with no test of \<open>arr\<close>.
\<close>

definition get_item :: "StrictArray option \<Rightarrow> size_t \<Rightarrow> fault + nat option" where
  "get_item arr index =
     (case arr of
        None \<Rightarrow> Inl NullDereference
      | Some a \<Rightarrow>
          if index < 0 \<and> index \<ge> size_StrictArray a then Inr None
          else Inr (Some (unat (type_size_StrictArray a * index))))"

section \<open>Sequences of operations on a strict array\<close>

text \<open>
  The operations that change a strict array after its construction, applied one after
  the other to the same non-null handle. \<open>states\<close> lists the object after each
  operation, as a caller observes it between two calls; a fault ends the list.
\<close>

datatype 'v operation = Append 'v | Remove_last | Clear

fun apply_StrictArray_int ::
  "StrictArray_int \<Rightarrow> c_int operation \<Rightarrow> fault + status_t option \<times> StrictArray_int option"
  where
  "apply_StrictArray_int a (Append v) =
     (case push_back_StrictArray_int (Some a) v of
        Inl f \<Rightarrow> Inl f
      | Inr (st, arr) \<Rightarrow> Inr (Some st, arr))"
| "apply_StrictArray_int a Remove_last = Inr (None, pop_back_StrictArray_int (Some a))"
| "apply_StrictArray_int a Clear = Inr (None, clear_StrictArray_int (Some a))"

fun states_StrictArray_int ::
  "StrictArray_int \<Rightarrow> c_int operation list \<Rightarrow> StrictArray_int list" where
  "states_StrictArray_int a [] = [a]"
| "states_StrictArray_int a (x # xs) =
     a # (case apply_StrictArray_int a x of
            Inr (_, Some a') \<Rightarrow> states_StrictArray_int a' xs
          | _ \<Rightarrow> [])"

fun apply_StrictArray ::
  "StrictArray \<Rightarrow> byte list option operation \<Rightarrow> fault + status_t option \<times> StrictArray option"
  where
  "apply_StrictArray a (Append v) =
     (case push_back_StrictArray (Some a) v of
        Inl f \<Rightarrow> Inl f
      | Inr (st, arr) \<Rightarrow> Inr (Some st, arr))"
| "apply_StrictArray a Remove_last = Inr (None, pop_back_StrictArray (Some a))"
| "apply_StrictArray a Clear = Inr (None, clear_StrictArray (Some a))"

fun states_StrictArray ::
  "StrictArray \<Rightarrow> byte list option operation list \<Rightarrow> StrictArray list" where
  "states_StrictArray a [] = [a]"
| "states_StrictArray a (x # xs) =
     a # (case apply_StrictArray a x of
            Inr (_, Some a') \<Rightarrow> states_StrictArray a' xs
          | _ \<Rightarrow> [])"

text \<open>
  Appending the values of a list one after the other, collecting the statuses.
\<close>

fun push_all_StrictArray_int ::
  "StrictArray_int \<Rightarrow> c_int list \<Rightarrow> fault + status_t list \<times> StrictArray_int" where
  "push_all_StrictArray_int a [] = Inr ([], a)"
| "push_all_StrictArray_int a (v # vs) =
     (case push_back_StrictArray_int (Some a) v of
        Inr (st, Some a') \<Rightarrow>
          (case push_all_StrictArray_int a' vs of
             Inl f \<Rightarrow> Inl f
           | Inr (sts, a'') \<Rightarrow> Inr (st # sts, a''))
      | Inr (st, None) \<Rightarrow> Inr ([st], a)
      | Inl f \<Rightarrow> Inl f)"

fun push_all_StrictArray ::
  "StrictArray \<Rightarrow> byte list option list \<Rightarrow> fault + status_t list \<times> StrictArray" where
  "push_all_StrictArray a [] = Inr ([], a)"
| "push_all_StrictArray a (v # vs) =
     (case push_back_StrictArray (Some a) v of
        Inr (st, Some a') \<Rightarrow>
          (case push_all_StrictArray a' vs of
             Inl f \<Rightarrow> Inl f
           | Inr (sts, a'') \<Rightarrow> Inr (st # sts, a''))
      | Inr (st, None) \<Rightarrow> Inr ([st], a)
      | Inl f \<Rightarrow> Inl f)"

section \<open>Well-formed containers\<close>

text \<open>
  The representation invariant of each container: the payload behind the header holds
  \<open>capacity\<close> elements, the whole block fits the address space (the byte count
  \<open>sizeof(header) + capacity * element size\<close> does not wrap around in \<open>size_t\<close>), the
  element size of a generic array is positive, and the size of a strict array is at most
  its capacity. The constructors establish it whenever the byte count does not wrap
  around (lemmas \<open>new_Array_int_wf\<close> to \<open>new_StrictArray_wf\<close> below).
\<close>

definition wf_Array_int :: "Array_int \<Rightarrow> bool" where
  "wf_Array_int a =
     (length (data_Array_int a) = unat (capacity_Array_int a)
      \<and> unat sizeof_Array_int + unat (capacity_Array_int a) * unat sizeof_int < 2 ^ 64)"

definition wf_Array :: "Array \<Rightarrow> bool" where
  "wf_Array a =
     (0 < type_size_Array a
      \<and> length (data_Array a) = unat (capacity_Array a) * unat (type_size_Array a)
      \<and> unat sizeof_Array + unat (capacity_Array a) * unat (type_size_Array a) < 2 ^ 64)"

definition wf_StrictArray_int :: "StrictArray_int \<Rightarrow> bool" where
  "wf_StrictArray_int a =
     (size_StrictArray_int a \<le> capacity_StrictArray_int a
      \<and> length (data_StrictArray_int a) = unat (capacity_StrictArray_int a)
      \<and> unat sizeof_StrictArray_int + unat (capacity_StrictArray_int a) * unat sizeof_int
          < 2 ^ 64)"

definition wf_StrictArray :: "StrictArray \<Rightarrow> bool" where
  "wf_StrictArray a =
     (size_StrictArray a \<le> capacity_StrictArray a
      \<and> length (data_StrictArray a)
          = unat (capacity_StrictArray a) * unat (type_size_StrictArray a)
      \<and> unat sizeof_StrictArray
          + unat (capacity_StrictArray a) * unat (type_size_StrictArray a) < 2 ^ 64)"

text \<open>
  An operation on a generic strict array of element size \<open>n\<close> whose \<open>value\<close> pointer,
  if it appends, refers to at least \<open>n\<close> readable bytes.
\<close>

fun readable :: "size_t \<Rightarrow> byte list option operation \<Rightarrow> bool" where
  "readable n (Append None) = (n = 0)"
| "readable n (Append (Some bs)) = (unat n \<le> length bs)"
| "readable n Remove_last = True"
| "readable n Clear = True"

section \<open>Concrete inputs\<close>

text \<open>
  A heap that satisfies every request and whose fresh blocks hold the byte \<open>0xAA\<close>
  everywhere, and one that refuses every request.
\<close>

definition heap_ok :: heap where
  "heap_ok = \<lparr>grants = (\<lambda>_. True), junk_field = (\<lambda>_. 0xAAAAAAAAAAAAAAAA),
              junk_int = (\<lambda>_. 0xAAAAAAAA), junk_byte = (\<lambda>_. 0xAA)\<rparr>"

definition heap_full :: heap where
  "heap_full = heap_ok\<lparr>grants := (\<lambda>_. False)\<rparr>"

text \<open>Containers and operation sequences used as concrete inputs.\<close>

definition plain_int_7_9 :: Array_int where
  "plain_int_7_9 = \<lparr>capacity_Array_int = 2, data_Array_int = [7, 9]\<rparr>"

definition plain_bytes_2x2 :: Array where
  "plain_bytes_2x2 = \<lparr>capacity_Array = 2, type_size_Array = 2, data_Array = [1, 2, 3, 4]\<rparr>"

definition strict_int_123 :: StrictArray_int where
  "strict_int_123 =
     \<lparr>size_StrictArray_int = 3, capacity_StrictArray_int = 3,
      data_StrictArray_int = [1, 2, 3]\<rparr>"

definition ops_int :: "c_int operation list" where
  "ops_int = [Append 4, Remove_last, Append 9, Clear, Append 7]"

definition strict_bytes_2_of_3 :: StrictArray where
  "strict_bytes_2_of_3 =
     \<lparr>size_StrictArray = 2, capacity_StrictArray = 3, type_size_StrictArray = 2,
      data_StrictArray = [1, 0, 2, 0, 0xAA, 0xAA]\<rparr>"

definition ops_bytes :: "byte list option operation list" where
  "ops_bytes = [Append (Some [3, 0]), Append (Some [4, 0]), Remove_last, Clear]"

section \<open>Arithmetic on \<open>size_t\<close> and the copy primitive\<close>

lemma unat_mult_size_t:
  "unat c * unat e < 2 ^ 64 \<Longrightarrow> unat ((c::size_t) * e) = unat c * unat e"
  by (simp add: unat_word_ariths)

lemma unat_block_size_t:
  "unat hdr + unat c * unat e < 2 ^ 64 \<Longrightarrow>
   unat ((hdr::size_t) + c * e) = unat hdr + unat c * unat e"
  by (simp add: unat_word_ariths)

lemma word_succ_le: "(s::size_t) \<le> c \<Longrightarrow> s \<noteq> c \<Longrightarrow> s + 1 \<le> c"
  by (simp add: inc_le)

lemma word_pred_le: "(s::size_t) \<le> c \<Longrightarrow> s \<noteq> 0 \<Longrightarrow> s - 1 \<le> c"
  by (simp add: word_le_nat_alt unat_minus_one)

lemma unat_less_of_le_neq: "(s::size_t) \<le> c \<Longrightarrow> s \<noteq> c \<Longrightarrow> unat s < unat c"
  by (simp add: word_less_nat_alt [symmetric])

lemma unat_succ_size_t:
  "unat (s::size_t) < unat (c::size_t) \<Longrightarrow> unat (s + 1) = Suc (unat s)"
  using unsigned_less [of c, where ?'a = nat] by (simp add: unat_word_ariths)

text \<open>
  The print loop from the start: it ends without a fault exactly when the caller's
  array has \<open>size\<close> cells and \<open>size\<close> is at most \<open>INT_MAX\<close>.
\<close>

lemma print_loop_ok:
  "unat size1 \<le> length xs \<Longrightarrow> unat size1 \<le> INT_MAX \<Longrightarrow> print_loop xs size1 i = Inr ()"
proof (induction xs size1 i rule: print_loop.induct)
  case (1 xs size1 i)
  show ?case
  proof (cases "i < unat size1")
    case True
    with "1.prems" have "i < length xs" and "i \<noteq> INT_MAX"
      by simp_all
    with True "1.IH" "1.prems" show ?thesis
      by (subst print_loop.simps) simp
  next
    case False
    then show ?thesis
      by (subst print_loop.simps) simp
  qed
qed

lemma print_loop_out_of_bounds:
  "i \<le> length xs \<Longrightarrow> length xs < unat size1 \<Longrightarrow> length xs \<le> INT_MAX \<Longrightarrow>
   print_loop xs size1 i = Inl OutOfBounds"
proof (induction xs size1 i rule: print_loop.induct)
  case (1 xs size1 i)
  show ?case
  proof (cases "i < length xs")
    case True
    with "1.prems" have "i < unat size1" and "i \<noteq> INT_MAX" and "Suc i \<le> length xs"
      by simp_all
    with True "1.IH" "1.prems" show ?thesis
      by (subst print_loop.simps) simp
  next
    case False
    with "1.prems" have "i < unat size1" by simp
    with False show ?thesis
      by (subst print_loop.simps) simp
  qed
qed

lemma print_loop_overflow:
  "i \<le> INT_MAX \<Longrightarrow> INT_MAX < unat size1 \<Longrightarrow> INT_MAX < length xs \<Longrightarrow>
   print_loop xs size1 i = Inl SignedOverflow"
proof (induction xs size1 i rule: print_loop.induct)
  case (1 xs size1 i)
  from "1.prems" have lt: "i < unat size1" and inb: "i < length xs"
    by simp_all
  show ?case
  proof (cases "i = INT_MAX")
    case True
    with lt inb show ?thesis
      by (subst print_loop.simps) simp
  next
    case False
    with "1.prems" have "Suc i \<le> INT_MAX" by simp
    with False lt inb "1.IH" "1.prems" show ?thesis
      by (subst print_loop.simps) simp
  qed
qed

lemma print_cells_Inr:
  "print_cells data size1 = Inr u \<Longrightarrow>
   unat size1 \<le> INT_MAX \<and> (case data of None \<Rightarrow> size1 = 0 | Some xs \<Rightarrow> unat size1 \<le> length xs)"
proof (cases data)
  case None
  assume "print_cells data size1 = Inr u"
  with None show ?thesis
    by (simp add: print_cells_def unat_eq_0 split: if_splits)
next
  case (Some xs)
  assume ok: "print_cells data size1 = Inr u"
  with Some have run: "print_loop xs size1 0 = Inr u"
    by (simp add: print_cells_def)
  have len: "unat size1 \<le> length xs"
  proof (rule ccontr)
    assume "\<not> unat size1 \<le> length xs"
    then have short: "length xs < unat size1" by simp
    show False
    proof (cases "length xs \<le> INT_MAX")
      case True
      with short run print_loop_out_of_bounds [of 0 xs size1] show False by simp
    next
      case False
      with short run print_loop_overflow [of 0 size1 xs] show False by simp
    qed
  qed
  have "unat size1 \<le> INT_MAX"
  proof (rule ccontr)
    assume "\<not> unat size1 \<le> INT_MAX"
    with len run print_loop_overflow [of 0 size1 xs] show False by simp
  qed
  with len Some show ?thesis by simp
qed

lemma memcpy_int_length:
  "memcpy_int dst src n = Inr d \<Longrightarrow> length d = length dst"
  by (auto simp: memcpy_int_def Let_def split: if_splits option.splits)

lemma memcpy_bytes_length:
  "memcpy_bytes dst off src n = Inr d \<Longrightarrow> length d = length dst"
  by (auto simp: memcpy_bytes_def Let_def split: if_splits option.splits)

lemma memcpy_int_all:
  "length s = k \<Longrightarrow> length dst = k \<Longrightarrow> unat n div unat sizeof_int = k \<Longrightarrow>
   memcpy_int dst (Some s) n = Inr s"
  by (auto simp: memcpy_int_def Let_def)

lemma memcpy_bytes_prefix:
  "unat n \<le> length s \<Longrightarrow> unat n \<le> length dst \<Longrightarrow>
   memcpy_bytes dst 0 (Some s) n = Inr (take (unat n) s @ drop (unat n) dst)"
  by (simp add: memcpy_bytes_def Let_def)

section \<open>Unwrapping a Result\<close>

lemma get_data_p_failure:
  "ok r \<noteq> NO_ERROR \<Longrightarrow> get_data_p (Some r) (Some v) = (error_msg r, Some Null)"
  by (simp add: get_data_p_def)

lemma get_data_p_success:
  "ok r = NO_ERROR \<Longrightarrow> get_data_p (Some r) (Some v) = (Null, Some (data_Result r))"
  by (simp add: get_data_p_def)

text \<open>
  C6. The claim: for every Result, unwrapping a failure returns the message and sets the
  output slot to null, and unwrapping a success stores the payload in the slot and
  returns null. \<open>get_data_p\<close> does so (the two lemmas above). \<open>get_data\<close> does not: on
  the failure Result of a clone of the null handle it returns the message and leaves the
  slot as it was, here still holding the address of another object; on a success Result
  it stores the payload and ends without a return value.
\<close>

theorem C6_get_data_diverges:
  "get_data \<lparr>ok = SEGFAULT, union = Str ''ValueError: cannot access a null pointer\<newline>''\<rparr>
       (Some (Obj \<lparr>capacity_Array_int = 1, data_Array_int = [5]\<rparr>))
     = (Value (Str ''ValueError: cannot access a null pointer\<newline>''),
        Some (Obj \<lparr>capacity_Array_int = 1, data_Array_int = [5]\<rparr>))
   \<and> get_data \<lparr>ok = NO_ERROR, union = Obj \<lparr>capacity_Array_int = 1, data_Array_int = [5]\<rparr>\<rparr>
         (Some Null)
     = (Indeterminate, Some (Obj \<lparr>capacity_Array_int = 1, data_Array_int = [5]\<rparr>))"
  by (simp add: get_data_def)

text \<open>
  C10. With a null output slot neither unwrap operation reads or writes through the
  slot: \<open>get_data_p\<close> returns its null-access message, whatever its first argument is,
  and \<open>get_data\<close> returns null whatever the Result is, also when it carries a failure
  status and a message.
\<close>

theorem C10_unwrap_null_slot:
  "get_data_p from None = (Str ''ValueError: cannot access a null pointer.\<newline>'', None)
   \<and> get_data r None = (Value Null, None)"
  by (simp add: get_data_p_def get_data_def split: option.split)

section \<open>Indexed access\<close>

lemma get_item_Array_int_None: "get_item_Array_int None index = None"
  by (simp add: get_item_Array_int_def)

lemma get_item_Array_None: "get_item_Array None index = None"
  by (simp add: get_item_Array_def)

lemma get_item_Array_int_Some:
  "get_item_Array_int (Some a) index =
     (if capacity_Array_int a \<le> index then None else Some (unat index))"
  by (simp add: get_item_Array_int_def)

lemma get_item_Array_Some:
  "get_item_Array (Some a) index =
     (if capacity_Array a \<le> index then None else Some (unat (index * type_size_Array a)))"
  by (simp add: get_item_Array_def)

lemma get_item_StrictArray_int_Some:
  "get_item_StrictArray_int (Some a) index =
     Inr (if size_StrictArray_int a \<le> index then None else Some (unat index))"
  by (simp add: get_item_StrictArray_int_def)

lemma get_item_Some:
  "get_item (Some a) index = Inr (Some (unat (type_size_StrictArray a * index)))"
  by (simp add: get_item_def)

text \<open>
  C1. The claim: on a non-null strict array, \<open>get\<close> returns null for every index at or
  beyond \<open>size\<close> and the address of the element otherwise. The int variant does so
  (\<open>get_item_StrictArray_int_Some\<close>). The generic \<open>get_item\<close> returns an address for
  every index (\<open>get_item_Some\<close>): on an array of two 4-byte slots holding one element
  it returns the address of the unused slot for index 1, and an address behind the
  payload for index 5.
\<close>

theorem C1_get_item_beyond_size:
  "get_item (Some \<lparr>size_StrictArray = 1, capacity_StrictArray = 2, type_size_StrictArray = 4,
                    data_StrictArray = [1, 0, 0, 0, 0xAA, 0xAA, 0xAA, 0xAA]\<rparr>) 1
     = Inr (Some 4)
   \<and> get_item (Some \<lparr>size_StrictArray = 1, capacity_StrictArray = 2, type_size_StrictArray = 4,
                      data_StrictArray = [1, 0, 0, 0, 0xAA, 0xAA, 0xAA, 0xAA]\<rparr>) 5
     = Inr (Some 20)"
  by (simp add: get_item_def)

text \<open>
  C3. The claim: \<open>get\<close> on a null handle returns null in every container family, without
  reading through the handle. The plain arrays do so (\<open>get_item_Array_int_None\<close>,
  \<open>get_item_Array_None\<close>). Both strict variants read a field of the handle with no test
  of it.
\<close>

theorem C3_strict_get_null_handle:
  "get_item_StrictArray_int None 0 = Inl NullDereference
   \<and> get_item None 0 = Inl NullDereference"
  by (simp add: get_item_StrictArray_int_def get_item_def)

section \<open>Append\<close>

lemma push_back_StrictArray_int_None:
  "push_back_StrictArray_int None v = Inr (SEGFAULT, None)"
  by (simp add: push_back_StrictArray_int_def)

lemma push_back_StrictArray_int_full:
  "size_StrictArray_int a = capacity_StrictArray_int a \<Longrightarrow>
   push_back_StrictArray_int (Some a) v = Inr (NO_SPACE, Some a)"
  by (simp add: push_back_StrictArray_int_def)

lemma push_back_StrictArray_int_room:
  "size_StrictArray_int a \<noteq> capacity_StrictArray_int a \<Longrightarrow>
   unat (size_StrictArray_int a) < length (data_StrictArray_int a) \<Longrightarrow>
   push_back_StrictArray_int (Some a) v =
     Inr (NO_ERROR,
          Some (a\<lparr>data_StrictArray_int :=
                     (data_StrictArray_int a)[unat (size_StrictArray_int a) := v],
                   size_StrictArray_int := size_StrictArray_int a + 1\<rparr>))"
  by (simp add: push_back_StrictArray_int_def Let_def)

lemma push_back_StrictArray_full:
  "size_StrictArray a = capacity_StrictArray a \<Longrightarrow>
   push_back_StrictArray (Some a) v = Inr (NO_SPACE, Some a)"
  by (simp add: push_back_StrictArray_def)

lemma push_back_StrictArray_int_wf_room:
  assumes wf: "wf_StrictArray_int a"
    and room: "size_StrictArray_int a \<noteq> capacity_StrictArray_int a"
  shows "push_back_StrictArray_int (Some a) v =
     Inr (NO_ERROR,
          Some (a\<lparr>data_StrictArray_int :=
                     (data_StrictArray_int a)[unat (size_StrictArray_int a) := v],
                   size_StrictArray_int := size_StrictArray_int a + 1\<rparr>))"
proof -
  from wf room have "unat (size_StrictArray_int a) < length (data_StrictArray_int a)"
    by (simp add: wf_StrictArray_int_def unat_less_of_le_neq)
  with room show ?thesis by (rule push_back_StrictArray_int_room)
qed

text \<open>
  The generic variant on a non-null, well-formed array with room, for a value pointer
  that refers to \<open>type_size\<close> readable bytes \<open>bs\<close>: the bytes are stored at byte offset
  \<open>type_size * size\<close> and \<open>size\<close> is incremented.
\<close>

lemma push_back_StrictArray_wf_room:
  assumes wf: "wf_StrictArray a"
    and room: "size_StrictArray a \<noteq> capacity_StrictArray a"
    and rd: "unat (type_size_StrictArray a) \<le> length bs"
  shows "push_back_StrictArray (Some a) (Some bs) =
     Inr (NO_ERROR,
          Some (a\<lparr>data_StrictArray :=
                     (if type_size_StrictArray a = 0 then data_StrictArray a
                      else take (unat (type_size_StrictArray a) * unat (size_StrictArray a))
                             (data_StrictArray a)
                           @ take (unat (type_size_StrictArray a)) bs
                           @ drop (unat (type_size_StrictArray a) * unat (size_StrictArray a)
                                   + unat (type_size_StrictArray a))
                               (data_StrictArray a)),
                   size_StrictArray := size_StrictArray a + 1\<rparr>))"
proof -
  let ?s = "size_StrictArray a" and ?c = "capacity_StrictArray a"
  let ?t = "type_size_StrictArray a"
  from wf have le: "?s \<le> ?c"
    and len: "length (data_StrictArray a) = unat ?c * unat ?t"
    and fit: "unat sizeof_StrictArray + unat ?c * unat ?t < 2 ^ 64"
    by (simp_all add: wf_StrictArray_def)
  from le room have lt: "Suc (unat ?s) \<le> unat ?c"
    using unat_less_of_le_neq by fastforce
  have space: "unat ?t * unat ?s + unat ?t \<le> unat ?t * unat ?c"
    using mult_le_mono2 [OF lt, of "unat ?t"] by simp
  with fit have "unat ?t * unat ?s < 2 ^ 64"
    by (simp add: mult.commute)
  then have off: "unat (?t * ?s) = unat ?t * unat ?s"
    by (rule unat_mult_size_t)
  from len have len': "length (data_StrictArray a) = unat ?t * unat ?c"
    by (simp add: mult.commute)
  from space have fits: "unat ?t * unat ?s + unat ?t \<le> length (data_StrictArray a)"
    by (simp only: len')
  have zero: "?t = 0 \<longleftrightarrow> unat ?t = 0"
    by (simp add: unat_eq_0)
  from room rd fits zero show ?thesis
    by (simp add: push_back_StrictArray_def Let_def memcpy_bytes_def off)
qed

lemma push_back_StrictArray_wf:
  "wf_StrictArray a \<Longrightarrow> push_back_StrictArray (Some a) v = Inr (st, Some a') \<Longrightarrow>
   wf_StrictArray a' \<and> type_size_StrictArray a' = type_size_StrictArray a
   \<and> capacity_StrictArray a' = capacity_StrictArray a"
  by (auto simp: push_back_StrictArray_def Let_def wf_StrictArray_def word_succ_le
        dest!: memcpy_bytes_length split: if_splits sum.splits)

text \<open>
  Appending as many values as there is room for succeeds each time; when the array
  started empty and the list has \<open>capacity\<close> values, the array ends full and one more
  append returns \<open>NO_SPACE\<close> and changes nothing.
\<close>

lemma push_all_StrictArray_int_room:
  "wf_StrictArray_int a \<Longrightarrow>
   unat (size_StrictArray_int a) + length vs \<le> unat (capacity_StrictArray_int a) \<Longrightarrow>
   \<exists>a'. push_all_StrictArray_int a vs = Inr (replicate (length vs) NO_ERROR, a')
        \<and> wf_StrictArray_int a'
        \<and> capacity_StrictArray_int a' = capacity_StrictArray_int a
        \<and> unat (size_StrictArray_int a') = unat (size_StrictArray_int a) + length vs"
proof (induction vs arbitrary: a)
  case Nil
  then show ?case by simp
next
  case (Cons v vs)
  let ?a' = "a\<lparr>data_StrictArray_int :=
                  (data_StrictArray_int a)[unat (size_StrictArray_int a) := v],
                size_StrictArray_int := size_StrictArray_int a + 1\<rparr>"
  from Cons.prems(2)
  have lt: "unat (size_StrictArray_int a) < unat (capacity_StrictArray_int a)"
    by simp
  then have neq: "size_StrictArray_int a \<noteq> capacity_StrictArray_int a"
    by auto
  from Cons.prems(1) neq
  have step: "push_back_StrictArray_int (Some a) v = Inr (NO_ERROR, Some ?a')"
    by (rule push_back_StrictArray_int_wf_room)
  from Cons.prems(1) neq have wf': "wf_StrictArray_int ?a'"
    by (simp add: wf_StrictArray_int_def word_succ_le)
  from lt have sz: "unat (size_StrictArray_int ?a') = Suc (unat (size_StrictArray_int a))"
    by (simp add: unat_succ_size_t)
  with Cons.prems(2)
  have "unat (size_StrictArray_int ?a') + length vs \<le> unat (capacity_StrictArray_int ?a')"
    by simp
  from Cons.IH [OF wf' this] sz step show ?case
    by auto
qed

lemma push_all_StrictArray_int_fill:
  assumes wf: "wf_StrictArray_int a"
    and empty: "size_StrictArray_int a = 0"
    and n: "length vs = unat (capacity_StrictArray_int a)"
  shows "\<exists>a'. push_all_StrictArray_int a vs = Inr (replicate (length vs) NO_ERROR, a')
           \<and> size_StrictArray_int a' = capacity_StrictArray_int a
           \<and> capacity_StrictArray_int a' = capacity_StrictArray_int a
           \<and> push_back_StrictArray_int (Some a') v = Inr (NO_SPACE, Some a')"
proof -
  from empty n
  have "unat (size_StrictArray_int a) + length vs \<le> unat (capacity_StrictArray_int a)"
    by simp
  from push_all_StrictArray_int_room [OF wf this]
  obtain a' where run: "push_all_StrictArray_int a vs = Inr (replicate (length vs) NO_ERROR, a')"
    and cap: "capacity_StrictArray_int a' = capacity_StrictArray_int a"
    and sz: "unat (size_StrictArray_int a') = unat (size_StrictArray_int a) + length vs"
    by blast
  from sz empty n cap have full: "size_StrictArray_int a' = capacity_StrictArray_int a'"
    by (simp add: word_unat_eq_iff)
  from full have "push_back_StrictArray_int (Some a') v = Inr (NO_SPACE, Some a')"
    by (rule push_back_StrictArray_int_full)
  with run cap full show ?thesis by simp
qed

lemma push_all_StrictArray_room:
  "wf_StrictArray a \<Longrightarrow>
   list_all (\<lambda>v. \<exists>bs. v = Some bs \<and> unat (type_size_StrictArray a) \<le> length bs) vs \<Longrightarrow>
   unat (size_StrictArray a) + length vs \<le> unat (capacity_StrictArray a) \<Longrightarrow>
   \<exists>a'. push_all_StrictArray a vs = Inr (replicate (length vs) NO_ERROR, a')
        \<and> wf_StrictArray a'
        \<and> capacity_StrictArray a' = capacity_StrictArray a
        \<and> type_size_StrictArray a' = type_size_StrictArray a
        \<and> unat (size_StrictArray a') = unat (size_StrictArray a) + length vs"
proof (induction vs arbitrary: a)
  case Nil
  then show ?case by simp
next
  case (Cons v vs)
  from Cons.prems(2) obtain bs where v: "v = Some bs"
    and rd: "unat (type_size_StrictArray a) \<le> length bs"
    and rest: "list_all (\<lambda>v. \<exists>bs. v = Some bs \<and> unat (type_size_StrictArray a) \<le> length bs) vs"
    by auto
  from Cons.prems(3) have lt: "unat (size_StrictArray a) < unat (capacity_StrictArray a)"
    by simp
  then have neq: "size_StrictArray a \<noteq> capacity_StrictArray a"
    by auto
  from push_back_StrictArray_wf_room [OF Cons.prems(1) neq rd]
  obtain d where step: "push_back_StrictArray (Some a) v =
      Inr (NO_ERROR, Some (a\<lparr>data_StrictArray := d,
                               size_StrictArray := size_StrictArray a + 1\<rparr>))"
    using v by blast
  let ?a' = "a\<lparr>data_StrictArray := d, size_StrictArray := size_StrictArray a + 1\<rparr>"
  from push_back_StrictArray_wf [OF Cons.prems(1) step] have wf': "wf_StrictArray ?a'"
    by blast
  from lt have sz: "unat (size_StrictArray ?a') = Suc (unat (size_StrictArray a))"
    by (simp add: unat_succ_size_t)
  with Cons.prems(3)
  have room': "unat (size_StrictArray ?a') + length vs \<le> unat (capacity_StrictArray ?a')"
    by simp
  from rest have rest': "list_all (\<lambda>v. \<exists>bs. v = Some bs
      \<and> unat (type_size_StrictArray ?a') \<le> length bs) vs"
    by simp
  from Cons.IH [OF wf' rest' room'] sz step show ?case
    by auto
qed

lemma push_all_StrictArray_fill:
  assumes wf: "wf_StrictArray a"
    and empty: "size_StrictArray a = 0"
    and n: "length vs = unat (capacity_StrictArray a)"
    and rd: "list_all (\<lambda>v. \<exists>bs. v = Some bs \<and> unat (type_size_StrictArray a) \<le> length bs) vs"
  shows "\<exists>a'. push_all_StrictArray a vs = Inr (replicate (length vs) NO_ERROR, a')
           \<and> size_StrictArray a' = capacity_StrictArray a
           \<and> capacity_StrictArray a' = capacity_StrictArray a
           \<and> push_back_StrictArray (Some a') v = Inr (NO_SPACE, Some a')"
proof -
  from empty n
  have "unat (size_StrictArray a) + length vs \<le> unat (capacity_StrictArray a)"
    by simp
  from push_all_StrictArray_room [OF wf rd this]
  obtain a' where run: "push_all_StrictArray a vs = Inr (replicate (length vs) NO_ERROR, a')"
    and cap: "capacity_StrictArray a' = capacity_StrictArray a"
    and sz: "unat (size_StrictArray a') = unat (size_StrictArray a) + length vs"
    by blast
  from sz empty n cap have full: "size_StrictArray a' = capacity_StrictArray a'"
    by (simp add: word_unat_eq_iff)
  from full have "push_back_StrictArray (Some a') v = Inr (NO_SPACE, Some a')"
    by (rule push_back_StrictArray_full)
  with run cap full show ?thesis by simp
qed

text \<open>
  C2. The claim: in both variants, append on a null handle returns the null-reference
  status and changes nothing, append on a full array returns the capacity-exhausted
  status and changes nothing, append with room stores the value at offset \<open>size\<close>
  and increments \<open>size\<close>, and so \<open>capacity\<close> appends on an empty array succeed and
  the next one fails. The int variant does all of it, and the generic variant does all
  of it on a non-null handle (the lemmas above). On a null handle the generic
  \<open>push_back_StrictArray\<close> reads \<open>arr->size\<close> and \<open>arr->type_size\<close> before it
  tests \<open>arr\<close>: the handle is read through and the status \<open>SEGFAULT\<close> is never
  returned.
\<close>

theorem C2_push_back_null_handle:
  "push_back_StrictArray None (Some [1, 0, 0, 0]) = Inl NullDereference"
  by (simp add: push_back_StrictArray_def)

section \<open>Construction\<close>

text \<open>
  C5 as stated fails: the constructors force the count to zero when the pointer to the
  initial elements is null, before they compare it with the capacity. A request with a
  null pointer, count 5 and capacity 3 passes the validation and, on a heap that
  satisfies the request, returns a container of capacity 3.
\<close>

theorem C5_null_elements_counterexample:
  "new_Array_int heap_ok None 5 3 =
     Inr \<lparr>ok = NO_ERROR,
          union = Obj \<lparr>capacity_Array_int = 3,
                       data_Array_int = [0xAAAAAAAA, 0xAAAAAAAA, 0xAAAAAAAA]\<rparr>\<rparr>"
  by (simp add: new_Array_int_def malloc_def heap_ok_def fresh_Array_int_def memcpy_int_def
        sizeof_Array_int_def sizeof_int_def upt_rec)

text \<open>
  C5, amended: for every construction, in all four variants, with a non-null pointer to
  the initial elements and a capacity strictly less than the initial count, the Result
  carries the status \<open>INVALID_SIZE\<close> and a message, and no container. This holds on
  every heap, for every array behind the pointer and, in the generic variants, for
  every element size (the size test comes first).
\<close>

theorem C5_invalid_size:
  "capacity < size0 \<Longrightarrow>
     new_Array_int h (Some xs) size0 capacity =
       Inr \<lparr>ok = INVALID_SIZE,
            union = Str ''SizeError: size is negative or capacity is less than size\<newline>''\<rparr>
   \<and> new_Array h (Some bs) size0 capacity type_size =
       Inr \<lparr>ok = INVALID_SIZE,
            union = Str ''SizeError: size is negative or capacity is less than size\<newline>''\<rparr>
   \<and> new_StrictArray_int h (Some xs) size0 capacity =
       Inr \<lparr>ok = INVALID_SIZE,
            union = Str ''SizeError: size is negative or capacity is less than size\<newline>''\<rparr>
   \<and> new_StrictArray h (Some bs) type_size size0 capacity =
       Inr \<lparr>ok = INVALID_SIZE,
            union = Str ''SizeError: Size is negative or capacity is less than size\<newline>''\<rparr>"
  by (simp add: new_Array_int_def new_Array_def new_StrictArray_int_def new_StrictArray_def)

theorem C5_invalid_size_witness:
  "(3 :: size_t) < 5
   \<and> new_Array_int heap_ok (Some [1, 2, 3, 4, 5]) 5 3 =
       Inr \<lparr>ok = INVALID_SIZE,
            union = Str ''SizeError: size is negative or capacity is less than size\<newline>''\<rparr>
   \<and> new_Array heap_ok (Some [1, 2, 3, 4, 5]) 5 3 1 =
       Inr \<lparr>ok = INVALID_SIZE,
            union = Str ''SizeError: size is negative or capacity is less than size\<newline>''\<rparr>
   \<and> new_StrictArray_int heap_ok (Some [1, 2, 3, 4, 5]) 5 3 =
       Inr \<lparr>ok = INVALID_SIZE,
            union = Str ''SizeError: size is negative or capacity is less than size\<newline>''\<rparr>
   \<and> new_StrictArray heap_ok (Some [1, 2, 3, 4, 5]) 1 5 3 =
       Inr \<lparr>ok = INVALID_SIZE,
            union = Str ''SizeError: Size is negative or capacity is less than size\<newline>''\<rparr>"
proof -
  have less: "(3 :: size_t) < 5" by simp
  show ?thesis
    using less
      C5_invalid_size [OF less, of heap_ok "[1, 2, 3, 4, 5]" "[1, 2, 3, 4, 5]" 1]
    by simp
qed

text \<open>
  C9. Constructing an int plain array with a null pointer to the initial elements, count
  5 and capacity 10, on a heap that satisfies the request of
  \<open>sizeof(Array_int) + 10 * sizeof(int)\<close> bytes: the count is forced to zero, the
  validation passes and the Result is a success. The container has capacity 10 and its
  ten cells hold what the fresh block held. \<open>get\<close> at index 9 returns the address of
  cell 9, \<open>get\<close> at index 10 returns null.
\<close>

theorem C9_construct_null_5_10:
  "grants h (sizeof_Array_int + 10 * sizeof_int) \<Longrightarrow>
   new_Array_int h None 5 10 =
     Inr \<lparr>ok = NO_ERROR,
          union = Obj \<lparr>capacity_Array_int = 10,
                       data_Array_int = map (junk_int h) [0 ..< 10]\<rparr>\<rparr>
   \<and> get_item_Array_int
         (Some \<lparr>capacity_Array_int = 10, data_Array_int = map (junk_int h) [0 ..< 10]\<rparr>) 9
       = Some 9
   \<and> get_item_Array_int
         (Some \<lparr>capacity_Array_int = 10, data_Array_int = map (junk_int h) [0 ..< 10]\<rparr>) 10
       = None"
  by (simp add: new_Array_int_def malloc_def fresh_Array_int_def memcpy_int_def
        sizeof_Array_int_def sizeof_int_def get_item_Array_int_def)

theorem C9_construct_null_5_10_witness:
  "grants heap_ok (sizeof_Array_int + 10 * sizeof_int)
   \<and> new_Array_int heap_ok None 5 10 =
       Inr \<lparr>ok = NO_ERROR,
            union = Obj \<lparr>capacity_Array_int = 10,
                         data_Array_int = map (junk_int heap_ok) [0 ..< 10]\<rparr>\<rparr>
   \<and> get_item_Array_int
         (Some \<lparr>capacity_Array_int = 10,
                data_Array_int = map (junk_int heap_ok) [0 ..< 10]\<rparr>) 9
       = Some 9
   \<and> get_item_Array_int
         (Some \<lparr>capacity_Array_int = 10,
                data_Array_int = map (junk_int heap_ok) [0 ..< 10]\<rparr>) 10
       = None"
proof -
  have g: "grants heap_ok (sizeof_Array_int + 10 * sizeof_int)"
    by (simp add: heap_ok_def)
  show ?thesis
    using g C9_construct_null_5_10 [OF g] by simp
qed

text \<open>
  A container returned by a constructor is well formed, provided the byte count of the
  block does not wrap around.
\<close>

lemma new_Array_int_wf:
  assumes new: "new_Array_int h d n cap = Inr \<lparr>ok = NO_ERROR, union = Obj a\<rparr>"
    and fit: "unat sizeof_Array_int + unat cap * unat sizeof_int < 2 ^ 64"
  shows "wf_Array_int a"
proof -
  have nbytes: "unat (8 + cap * 4) = 8 + unat cap * 4"
    using fit unat_block_size_t [of 8 cap 4]
    by (simp add: sizeof_Array_int_def sizeof_int_def)
  from new fit show ?thesis
    by (auto simp: new_Array_int_def malloc_def nbytes fresh_Array_int_def wf_Array_int_def
          sizeof_Array_int_def sizeof_int_def
          dest!: memcpy_int_length split: if_splits sum.splits)
qed

lemma new_Array_wf:
  assumes new: "new_Array h d n cap ts = Inr \<lparr>ok = NO_ERROR, union = Obj a\<rparr>"
    and fit: "unat sizeof_Array + unat cap * unat ts < 2 ^ 64"
  shows "wf_Array a"
proof -
  have nbytes: "unat (16 + cap * ts) = 16 + unat cap * unat ts"
    using fit unat_block_size_t [of 16 cap ts]
    by (simp add: sizeof_Array_def)
  from new fit show ?thesis
    by (auto simp: new_Array_def malloc_def nbytes fresh_Array_def wf_Array_def
          sizeof_Array_def word_neq_0_conv
          dest!: memcpy_bytes_length split: if_splits sum.splits)
qed

lemma new_StrictArray_int_wf:
  assumes new: "new_StrictArray_int h d n cap = Inr \<lparr>ok = NO_ERROR, union = Obj a\<rparr>"
    and fit: "unat sizeof_StrictArray_int + unat cap * unat sizeof_int < 2 ^ 64"
  shows "wf_StrictArray_int a"
proof -
  have nbytes: "unat (16 + 4 * cap) = 16 + unat cap * 4"
    using fit unat_block_size_t [of 16 cap 4]
    by (simp add: sizeof_StrictArray_int_def sizeof_int_def mult.commute [of 4 cap])
  from new fit show ?thesis
    by (auto simp: new_StrictArray_int_def malloc_def nbytes fresh_StrictArray_int_def
          wf_StrictArray_int_def sizeof_StrictArray_int_def sizeof_int_def
          dest!: memcpy_int_length split: if_splits sum.splits)
qed

lemma new_StrictArray_wf:
  assumes new: "new_StrictArray h d ts n cap = Inr \<lparr>ok = NO_ERROR, union = Obj a\<rparr>"
    and fit: "unat sizeof_StrictArray + unat cap * unat ts < 2 ^ 64"
  shows "wf_StrictArray a"
proof -
  have nbytes: "unat (24 + ts * cap) = 24 + unat cap * unat ts"
    using fit unat_block_size_t [of 24 cap ts]
    by (simp add: sizeof_StrictArray_def mult.commute [of ts cap])
  from new fit show ?thesis
    by (auto simp: new_StrictArray_def malloc_def nbytes fresh_StrictArray_def
          wf_StrictArray_def sizeof_StrictArray_def
          dest!: memcpy_bytes_length split: if_splits sum.splits)
qed

text \<open>
  A successful \<open>new_StrictArray_int\<close> has printed \<open>size\<close> cells of the caller's
  array: the array has that many cells, and \<open>size\<close> is at most \<open>INT_MAX\<close>.
\<close>

lemma new_StrictArray_int_printed:
  assumes "new_StrictArray_int h (Some xs) n cap = Inr \<lparr>ok = NO_ERROR, union = Obj a\<rparr>"
  shows "unat n \<le> INT_MAX \<and> unat n \<le> length xs"
proof -
  from assms obtain u where "print_cells (Some xs) n = Inr u"
    by (auto simp: new_StrictArray_int_def split: if_splits option.splits sum.splits)
  from print_cells_Inr [OF this] show ?thesis by simp
qed

section \<open>The size of a strict array stays within its capacity\<close>

lemma new_StrictArray_int_bounded:
  "new_StrictArray_int h d n cap = Inr \<lparr>ok = NO_ERROR, union = Obj a\<rparr> \<Longrightarrow>
   size_StrictArray_int a \<le> capacity_StrictArray_int a \<and> capacity_StrictArray_int a = cap"
  by (auto simp: new_StrictArray_int_def Let_def fresh_StrictArray_int_def
        split: if_splits option.splits sum.splits)

lemma new_StrictArray_bounded:
  "new_StrictArray h d ts n cap = Inr \<lparr>ok = NO_ERROR, union = Obj a\<rparr> \<Longrightarrow>
   size_StrictArray a \<le> capacity_StrictArray a \<and> capacity_StrictArray a = cap"
  by (auto simp: new_StrictArray_def Let_def fresh_StrictArray_def
        split: if_splits option.splits sum.splits)

lemma apply_StrictArray_int_bounded:
  "size_StrictArray_int a \<le> capacity_StrictArray_int a \<Longrightarrow>
   apply_StrictArray_int a x = Inr (st, Some a') \<Longrightarrow>
   size_StrictArray_int a' \<le> capacity_StrictArray_int a'
   \<and> capacity_StrictArray_int a' = capacity_StrictArray_int a"
  by (cases x)
     (auto simp: push_back_StrictArray_int_def pop_back_StrictArray_int_def
        clear_StrictArray_int_def Let_def word_succ_le word_pred_le
        split: if_splits sum.splits)

lemma apply_StrictArray_bounded:
  "size_StrictArray a \<le> capacity_StrictArray a \<Longrightarrow>
   apply_StrictArray a x = Inr (st, Some a') \<Longrightarrow>
   size_StrictArray a' \<le> capacity_StrictArray a'
   \<and> capacity_StrictArray a' = capacity_StrictArray a"
  by (cases x)
     (auto simp: push_back_StrictArray_def pop_back_StrictArray_def clear_StrictArray_def
        Let_def word_succ_le word_pred_le
        split: if_splits sum.splits)

lemma states_StrictArray_int_bounded:
  "size_StrictArray_int a \<le> capacity_StrictArray_int a \<Longrightarrow>
   list_all (\<lambda>s. size_StrictArray_int s \<le> capacity_StrictArray_int s
                \<and> capacity_StrictArray_int s = capacity_StrictArray_int a)
     (states_StrictArray_int a ops)"
proof (induction ops arbitrary: a)
  case Nil
  then show ?case by simp
next
  case (Cons x ops)
  show ?case
  proof (cases "apply_StrictArray_int a x")
    case (Inl f)
    with Cons.prems show ?thesis by simp
  next
    case (Inr r)
    obtain st arr where r: "r = (st, arr)" by (cases r)
    show ?thesis
    proof (cases arr)
      case None
      with Inr r Cons.prems show ?thesis by simp
    next
      case (Some a')
      with Inr r have step: "apply_StrictArray_int a x = Inr (st, Some a')"
        by simp
      from apply_StrictArray_int_bounded [OF Cons.prems step]
      have le: "size_StrictArray_int a' \<le> capacity_StrictArray_int a'"
        and cap: "capacity_StrictArray_int a' = capacity_StrictArray_int a"
        by blast+
      from Cons.IH [OF le] cap step Cons.prems show ?thesis by simp
    qed
  qed
qed

lemma states_StrictArray_bounded:
  "size_StrictArray a \<le> capacity_StrictArray a \<Longrightarrow>
   list_all (\<lambda>s. size_StrictArray s \<le> capacity_StrictArray s
                \<and> capacity_StrictArray s = capacity_StrictArray a)
     (states_StrictArray a ops)"
proof (induction ops arbitrary: a)
  case Nil
  then show ?case by simp
next
  case (Cons x ops)
  show ?case
  proof (cases "apply_StrictArray a x")
    case (Inl f)
    with Cons.prems show ?thesis by simp
  next
    case (Inr r)
    obtain st arr where r: "r = (st, arr)" by (cases r)
    show ?thesis
    proof (cases arr)
      case None
      with Inr r Cons.prems show ?thesis by simp
    next
      case (Some a')
      with Inr r have step: "apply_StrictArray a x = Inr (st, Some a')"
        by simp
      from apply_StrictArray_bounded [OF Cons.prems step]
      have le: "size_StrictArray a' \<le> capacity_StrictArray a'"
        and cap: "capacity_StrictArray a' = capacity_StrictArray a"
        by blast+
      from Cons.IH [OF le] cap step Cons.prems show ?thesis by simp
    qed
  qed
qed

text \<open>
  On a well-formed strict array no operation faults (for the generic variant, when each
  appended value is readable), so the list of states has one entry per operation.
\<close>

lemma apply_StrictArray_int_total:
  assumes "wf_StrictArray_int a"
  shows "\<exists>st a'. apply_StrictArray_int a x = Inr (st, Some a') \<and> wf_StrictArray_int a'"
proof (cases x)
  case (Append v)
  show ?thesis
  proof (cases "size_StrictArray_int a = capacity_StrictArray_int a")
    case True
    with Append assms show ?thesis by (simp add: push_back_StrictArray_int_def)
  next
    case False
    with assms have "unat (size_StrictArray_int a) < length (data_StrictArray_int a)"
      by (simp add: wf_StrictArray_int_def unat_less_of_le_neq)
    with False Append assms show ?thesis
      by (simp add: push_back_StrictArray_int_def Let_def wf_StrictArray_int_def word_succ_le)
  qed
next
  case Remove_last
  with assms show ?thesis
    by (simp add: pop_back_StrictArray_int_def wf_StrictArray_int_def word_pred_le)
next
  case Clear
  with assms show ?thesis
    by (simp add: clear_StrictArray_int_def wf_StrictArray_int_def)
qed

lemma states_StrictArray_int_length:
  "wf_StrictArray_int a \<Longrightarrow> length (states_StrictArray_int a ops) = Suc (length ops)"
proof (induction ops arbitrary: a)
  case Nil
  show ?case by simp
next
  case (Cons x ops)
  from apply_StrictArray_int_total [OF Cons.prems, of x]
  obtain st a' where "apply_StrictArray_int a x = Inr (st, Some a')" "wf_StrictArray_int a'"
    by blast
  with Cons.IH [of a'] show ?case by simp
qed

lemma apply_StrictArray_total:
  assumes wf: "wf_StrictArray a" and rd: "readable (type_size_StrictArray a) x"
  shows "\<exists>st a'. apply_StrictArray a x = Inr (st, Some a') \<and> wf_StrictArray a'
           \<and> type_size_StrictArray a' = type_size_StrictArray a"
proof (cases x)
  case (Append v)
  let ?s = "size_StrictArray a" and ?c = "capacity_StrictArray a"
  let ?t = "type_size_StrictArray a"
  show ?thesis
  proof (cases "?s = ?c")
    case True
    with Append wf show ?thesis by (simp add: push_back_StrictArray_def)
  next
    case False
    from wf have le: "?s \<le> ?c"
      and len: "length (data_StrictArray a) = unat ?c * unat ?t"
      and fit: "unat sizeof_StrictArray + unat ?c * unat ?t < 2 ^ 64"
      by (simp_all add: wf_StrictArray_def)
    from le False have lt: "Suc (unat ?s) \<le> unat ?c"
      using unat_less_of_le_neq by fastforce
    have room: "unat ?t * unat ?s + unat ?t \<le> unat ?t * unat ?c"
      using mult_le_mono2 [OF lt, of "unat ?t"] by simp
    with fit have "unat ?t * unat ?s < 2 ^ 64"
      by (simp add: mult.commute)
    then have off: "unat (?t * ?s) = unat ?t * unat ?s"
      by (rule unat_mult_size_t)
    from len have len': "length (data_StrictArray a) = unat ?t * unat ?c"
      by (simp add: mult.commute)
    from room have fits: "unat (?t * ?s) + unat ?t \<le> length (data_StrictArray a)"
      by (simp only: off len')
    have "\<exists>d. memcpy_bytes (data_StrictArray a) (unat (?t * ?s)) v ?t = Inr d"
    proof (cases v)
      case None
      with rd Append show ?thesis by (simp add: memcpy_bytes_def)
    next
      case (Some bs)
      with rd Append fits show ?thesis by (simp add: memcpy_bytes_def Let_def)
    qed
    then obtain d where d: "memcpy_bytes (data_StrictArray a) (unat (?t * ?s)) v ?t = Inr d"
      by blast
    then have "length d = length (data_StrictArray a)"
      by (rule memcpy_bytes_length)
    with d False Append wf show ?thesis
      by (simp add: push_back_StrictArray_def Let_def wf_StrictArray_def word_succ_le)
  qed
next
  case Remove_last
  with wf show ?thesis
    by (simp add: pop_back_StrictArray_def wf_StrictArray_def word_pred_le)
next
  case Clear
  with wf show ?thesis
    by (simp add: clear_StrictArray_def wf_StrictArray_def)
qed

lemma states_StrictArray_length:
  "wf_StrictArray a \<Longrightarrow> list_all (readable (type_size_StrictArray a)) ops \<Longrightarrow>
   length (states_StrictArray a ops) = Suc (length ops)"
proof (induction ops arbitrary: a)
  case Nil
  show ?case by simp
next
  case (Cons x ops)
  from Cons.prems have rd: "readable (type_size_StrictArray a) x"
    and rest: "list_all (readable (type_size_StrictArray a)) ops"
    by simp_all
  from apply_StrictArray_total [OF Cons.prems(1) rd]
  obtain st a' where a': "apply_StrictArray a x = Inr (st, Some a')" "wf_StrictArray a'"
    "type_size_StrictArray a' = type_size_StrictArray a"
    by blast
  with Cons.IH [of a'] rest show ?case by simp
qed

text \<open>
  C7. For both strict variants: when a construction has returned a success Result with
  the container \<open>a\<close>, then in every state the container goes through under any
  sequence of append, remove-last and clear operations (the state after the
  construction included), \<open>size \<le> capacity\<close> holds and \<open>capacity\<close> is the capacity
  requested at construction.
\<close>

theorem C7_size_le_capacity:
  "(new_StrictArray_int h d n cap = Inr \<lparr>ok = NO_ERROR, union = Obj a\<rparr> \<longrightarrow>
      list_all (\<lambda>s. size_StrictArray_int s \<le> capacity_StrictArray_int s
                   \<and> capacity_StrictArray_int s = cap)
        (states_StrictArray_int a ops))
   \<and> (new_StrictArray h bs ts m gcap = Inr \<lparr>ok = NO_ERROR, union = Obj g\<rparr> \<longrightarrow>
        list_all (\<lambda>s. size_StrictArray s \<le> capacity_StrictArray s
                     \<and> capacity_StrictArray s = gcap)
          (states_StrictArray g gops))"
proof (intro conjI impI)
  assume "new_StrictArray_int h d n cap = Inr \<lparr>ok = NO_ERROR, union = Obj a\<rparr>"
  then have "size_StrictArray_int a \<le> capacity_StrictArray_int a"
    and "capacity_StrictArray_int a = cap"
    by (blast dest: new_StrictArray_int_bounded)+
  with states_StrictArray_int_bounded [of a ops]
  show "list_all (\<lambda>s. size_StrictArray_int s \<le> capacity_StrictArray_int s
                     \<and> capacity_StrictArray_int s = cap)
          (states_StrictArray_int a ops)"
    by simp
next
  assume "new_StrictArray h bs ts m gcap = Inr \<lparr>ok = NO_ERROR, union = Obj g\<rparr>"
  then have "size_StrictArray g \<le> capacity_StrictArray g"
    and "capacity_StrictArray g = gcap"
    by (blast dest: new_StrictArray_bounded)+
  with states_StrictArray_bounded [of g gops]
  show "list_all (\<lambda>s. size_StrictArray s \<le> capacity_StrictArray s
                     \<and> capacity_StrictArray s = gcap)
          (states_StrictArray g gops)"
    by simp
qed

theorem C7_size_le_capacity_witness:
  "new_StrictArray_int heap_ok (Some [1, 2, 3]) 3 3 =
     Inr \<lparr>ok = NO_ERROR, union = Obj strict_int_123\<rparr>
   \<and> list_all (\<lambda>s. size_StrictArray_int s \<le> capacity_StrictArray_int s
                    \<and> capacity_StrictArray_int s = 3)
         (states_StrictArray_int strict_int_123 ops_int)
   \<and> length (states_StrictArray_int strict_int_123 ops_int) = 6
   \<and> new_StrictArray heap_ok (Some [1, 0, 2, 0]) 2 2 3 =
       Inr \<lparr>ok = NO_ERROR, union = Obj strict_bytes_2_of_3\<rparr>
   \<and> list_all (\<lambda>s. size_StrictArray s \<le> capacity_StrictArray s
                    \<and> capacity_StrictArray s = 3)
         (states_StrictArray strict_bytes_2_of_3 ops_bytes)
   \<and> length (states_StrictArray strict_bytes_2_of_3 ops_bytes) = 5"
proof -
  have new_int: "new_StrictArray_int heap_ok (Some [1, 2, 3]) 3 3 =
      Inr \<lparr>ok = NO_ERROR, union = Obj strict_int_123\<rparr>"
    by (simp add: new_StrictArray_int_def malloc_def heap_ok_def fresh_StrictArray_int_def
          memcpy_int_def sizeof_StrictArray_int_def sizeof_int_def strict_int_123_def upt_rec
          print_cells_def print_loop_ok INT_MAX_def)
  have new_bytes: "new_StrictArray heap_ok (Some [1, 0, 2, 0]) 2 2 3 =
      Inr \<lparr>ok = NO_ERROR, union = Obj strict_bytes_2_of_3\<rparr>"
    by (simp add: new_StrictArray_def malloc_def heap_ok_def fresh_StrictArray_def
          memcpy_bytes_def sizeof_StrictArray_def strict_bytes_2_of_3_def upt_rec)
  have len_int: "length (states_StrictArray_int strict_int_123 ops_int) = 6"
    by (simp add: strict_int_123_def ops_int_def push_back_StrictArray_int_def
          pop_back_StrictArray_int_def clear_StrictArray_int_def)
  have len_bytes: "length (states_StrictArray strict_bytes_2_of_3 ops_bytes) = 5"
    by (simp add: strict_bytes_2_of_3_def ops_bytes_def push_back_StrictArray_def
          pop_back_StrictArray_def clear_StrictArray_def memcpy_bytes_def)
  from new_int new_bytes
    C7_size_le_capacity [where h = heap_ok and d = "Some [1, 2, 3]" and n = 3 and cap = 3
      and a = strict_int_123 and ops = ops_int and bs = "Some [1, 0, 2, 0]" and ts = 2
      and m = 2 and gcap = 3 and g = strict_bytes_2_of_3 and gops = ops_bytes]
  have "list_all (\<lambda>s. size_StrictArray_int s \<le> capacity_StrictArray_int s
                      \<and> capacity_StrictArray_int s = 3)
          (states_StrictArray_int strict_int_123 ops_int)
        \<and> list_all (\<lambda>s. size_StrictArray s \<le> capacity_StrictArray s
                        \<and> capacity_StrictArray s = 3)
            (states_StrictArray strict_bytes_2_of_3 ops_bytes)"
    by blast
  with new_int new_bytes len_int len_bytes show ?thesis
    by blast
qed

section \<open>Cloning\<close>

text \<open>
  When the heap refuses the request, a constructor or a clone that has passed its
  validation returns the status \<open>HEAP_FAILURE\<close> and a message. The statements about
  successful constructions and clones therefore assume that the request is satisfied.
\<close>

lemma new_Array_int_null_5_10_refused:
  "new_Array_int heap_full None 5 10 =
     Inr \<lparr>ok = HEAP_FAILURE, union = Str ''AllocationError: Not enough memory in the heap''\<rparr>"
  by (simp add: new_Array_int_def malloc_def heap_full_def heap_ok_def)

lemma from_Array_int_refused:
  "\<not> grants h (sizeof_Array_int + capacity_Array_int a * sizeof_int) \<Longrightarrow>
   from_Array_int h (Some a) =
     Inr \<lparr>ok = HEAP_FAILURE, union = Str ''AllocationError: Not enough memory in the heap''\<rparr>"
  by (simp add: from_Array_int_def new_Array_int_def malloc_def)

lemma from_Array_refused:
  "0 < type_size_Array a \<Longrightarrow>
   \<not> grants h (sizeof_Array + capacity_Array a * type_size_Array a) \<Longrightarrow>
   from_Array h (Some a) =
     Inr \<lparr>ok = HEAP_FAILURE, union = Str ''AllocationError: Not enough memory in the heap''\<rparr>"
  by (auto simp: from_Array_def new_Array_def malloc_def Let_def)

lemma from_StrictArray_int_refused:
  "\<not> grants h (sizeof_StrictArray_int + capacity_StrictArray_int a * sizeof_int) \<Longrightarrow>
   from_StrictArray_int h (Some a) =
     Inr \<lparr>ok = HEAP_FAILURE,
          union = Str ''AllocationError: Not enough memory in the heap\<newline>''\<rparr>"
  by (simp add: from_StrictArray_int_def malloc_def)

lemma from_StrictArray_refused:
  "\<not> grants h (sizeof_StrictArray + capacity_StrictArray a * type_size_StrictArray a) \<Longrightarrow>
   from_StrictArray h (Some a) =
     Inr \<lparr>ok = HEAP_FAILURE,
          union = Str ''AllocationError: Not enough memory in the heap\<newline>''\<rparr>"
  by (simp add: from_StrictArray_def malloc_def)

lemma from_Array_int_wf:
  assumes wf: "wf_Array_int a"
    and g: "grants h (sizeof_Array_int + capacity_Array_int a * sizeof_int)"
  shows "from_Array_int h (Some a) =
     Inr \<lparr>ok = NO_ERROR,
          union = Obj \<lparr>capacity_Array_int = capacity_Array_int a,
                       data_Array_int = data_Array_int a\<rparr>\<rparr>"
proof -
  let ?c = "capacity_Array_int a"
  from wf have len: "length (data_Array_int a) = unat ?c"
    and fit: "unat sizeof_Array_int + unat ?c * unat sizeof_int < 2 ^ 64"
    by (simp_all add: wf_Array_int_def)
  have nbytes: "unat (sizeof_Array_int + ?c * sizeof_int) = 8 + unat ?c * 4"
    using fit by (simp add: unat_block_size_t sizeof_Array_int_def sizeof_int_def)
  have m: "malloc h (sizeof_Array_int + ?c * sizeof_int) = Some (8 + unat ?c * 4)"
    using g nbytes by (simp add: malloc_def)
  have f: "fresh_Array_int h (8 + unat ?c * 4) =
     Inr \<lparr>capacity_Array_int = junk_field h 0,
          data_Array_int = map (junk_int h) [0 ..< unat ?c]\<rparr>"
    by (simp add: fresh_Array_int_def sizeof_Array_int_def sizeof_int_def)
  have k: "unat (?c * sizeof_int) div unat sizeof_int = unat ?c"
    using fit by (simp add: unat_mult_size_t sizeof_int_def sizeof_Array_int_def)
  have c: "memcpy_int (map (junk_int h) [0 ..< unat ?c]) (Some (data_Array_int a))
             (?c * sizeof_int) = Inr (data_Array_int a)"
    using len k by (simp add: memcpy_int_all)
  show ?thesis
    by (simp add: from_Array_int_def new_Array_int_def m f c)
qed

lemma from_Array_wf:
  assumes wf: "wf_Array a"
    and g: "grants h (sizeof_Array + capacity_Array a * type_size_Array a)"
  shows "from_Array h (Some a) =
     Inr \<lparr>ok = NO_ERROR,
          union = Obj \<lparr>capacity_Array = capacity_Array a,
                       type_size_Array = type_size_Array a,
                       data_Array = data_Array a\<rparr>\<rparr>"
proof -
  let ?c = "capacity_Array a" and ?t = "type_size_Array a"
  from wf have pos: "0 < ?t"
    and len: "length (data_Array a) = unat ?c * unat ?t"
    and fit: "unat sizeof_Array + unat ?c * unat ?t < 2 ^ 64"
    by (simp_all add: wf_Array_def)
  have nbytes: "unat (sizeof_Array + ?c * ?t) = 16 + unat ?c * unat ?t"
    using fit by (simp add: unat_block_size_t sizeof_Array_def)
  have m: "malloc h (sizeof_Array + ?c * ?t) = Some (16 + unat ?c * unat ?t)"
    using g nbytes by (simp add: malloc_def)
  have f: "fresh_Array h (16 + unat ?c * unat ?t) =
     Inr \<lparr>capacity_Array = junk_field h 0, type_size_Array = junk_field h 1,
          data_Array = map (junk_byte h) [0 ..< unat ?c * unat ?t]\<rparr>"
    by (simp add: fresh_Array_def sizeof_Array_def)
  have k: "unat (?c * ?t) = unat ?c * unat ?t"
    using fit by (simp add: unat_mult_size_t)
  have c: "memcpy_bytes (map (junk_byte h) [0 ..< unat ?c * unat ?t]) 0 (Some (data_Array a))
             (?c * ?t) = Inr (data_Array a)"
    using len k by (simp add: memcpy_bytes_prefix)
  from pos have nz: "\<not> ?t \<le> 0" by simp
  show ?thesis
    using nz by (simp add: from_Array_def new_Array_def m f c)
qed

text \<open>
  C8. For both plain variants: the clone of a non-null, well-formed plain array, on a
  heap that satisfies the request for the new block, is a success Result; its payload
  has the capacity of the source (and, in the generic variant, its element size) and
  its whole data region (\<open>capacity\<close> cells, resp. \<open>capacity * type_size\<close> bytes, by
  well-formedness) equals that of the source.
\<close>

theorem C8_plain_clone:
  "(wf_Array_int a \<and> grants h (sizeof_Array_int + capacity_Array_int a * sizeof_int) \<longrightarrow>
      from_Array_int h (Some a) =
        Inr \<lparr>ok = NO_ERROR,
             union = Obj \<lparr>capacity_Array_int = capacity_Array_int a,
                          data_Array_int = data_Array_int a\<rparr>\<rparr>)
   \<and> (wf_Array g \<and> grants h (sizeof_Array + capacity_Array g * type_size_Array g) \<longrightarrow>
        from_Array h (Some g) =
          Inr \<lparr>ok = NO_ERROR,
               union = Obj \<lparr>capacity_Array = capacity_Array g,
                            type_size_Array = type_size_Array g,
                            data_Array = data_Array g\<rparr>\<rparr>)"
  using from_Array_int_wf [of a h] from_Array_wf [of g h] by blast

theorem C8_plain_clone_witness:
  "wf_Array_int plain_int_7_9
   \<and> grants heap_ok (sizeof_Array_int + capacity_Array_int plain_int_7_9 * sizeof_int)
   \<and> from_Array_int heap_ok (Some plain_int_7_9) =
       Inr \<lparr>ok = NO_ERROR,
            union = Obj \<lparr>capacity_Array_int = 2, data_Array_int = [7, 9]\<rparr>\<rparr>
   \<and> wf_Array plain_bytes_2x2
   \<and> grants heap_ok (sizeof_Array + capacity_Array plain_bytes_2x2
                        * type_size_Array plain_bytes_2x2)
   \<and> from_Array heap_ok (Some plain_bytes_2x2) =
       Inr \<lparr>ok = NO_ERROR,
            union = Obj \<lparr>capacity_Array = 2, type_size_Array = 2,
                         data_Array = [1, 2, 3, 4]\<rparr>\<rparr>"
proof -
  have wf_int: "wf_Array_int plain_int_7_9"
    by (simp add: wf_Array_int_def plain_int_7_9_def sizeof_Array_int_def sizeof_int_def)
  have wf_bytes: "wf_Array plain_bytes_2x2"
    by (simp add: wf_Array_def plain_bytes_2x2_def sizeof_Array_def)
  have g_int:
    "grants heap_ok (sizeof_Array_int + capacity_Array_int plain_int_7_9 * sizeof_int)"
    by (simp add: heap_ok_def)
  have g_bytes:
    "grants heap_ok (sizeof_Array + capacity_Array plain_bytes_2x2
                       * type_size_Array plain_bytes_2x2)"
    by (simp add: heap_ok_def)
  from wf_int wf_bytes g_int g_bytes
    C8_plain_clone [of plain_int_7_9 heap_ok plain_bytes_2x2]
  show ?thesis
    by (simp add: plain_int_7_9_def plain_bytes_2x2_def)
qed

lemma from_StrictArray_int_wf:
  assumes wf: "wf_StrictArray_int a"
    and g: "grants h (sizeof_StrictArray_int + capacity_StrictArray_int a * sizeof_int)"
  shows "from_StrictArray_int h (Some a) =
     Inr \<lparr>ok = NO_ERROR,
          union = Obj \<lparr>size_StrictArray_int = size_StrictArray_int a,
                       capacity_StrictArray_int = capacity_StrictArray_int a,
                       data_StrictArray_int = data_StrictArray_int a\<rparr>\<rparr>"
proof -
  let ?c = "capacity_StrictArray_int a"
  from wf have len: "length (data_StrictArray_int a) = unat ?c"
    and fit: "unat sizeof_StrictArray_int + unat ?c * unat sizeof_int < 2 ^ 64"
    by (simp_all add: wf_StrictArray_int_def)
  have nbytes: "unat (sizeof_StrictArray_int + ?c * sizeof_int) = 16 + unat ?c * 4"
    using fit by (simp add: unat_block_size_t sizeof_StrictArray_int_def sizeof_int_def)
  have m: "malloc h (sizeof_StrictArray_int + ?c * sizeof_int) = Some (16 + unat ?c * 4)"
    using g nbytes by (simp add: malloc_def)
  have f: "fresh_StrictArray_int h (16 + unat ?c * 4) =
     Inr \<lparr>size_StrictArray_int = junk_field h 0, capacity_StrictArray_int = junk_field h 1,
          data_StrictArray_int = map (junk_int h) [0 ..< unat ?c]\<rparr>"
    by (simp add: fresh_StrictArray_int_def sizeof_StrictArray_int_def sizeof_int_def)
  have k: "unat (?c * sizeof_int) div unat sizeof_int = unat ?c"
    using fit by (simp add: unat_mult_size_t sizeof_int_def sizeof_StrictArray_int_def)
  have c: "memcpy_int (map (junk_int h) [0 ..< unat ?c]) (Some (data_StrictArray_int a))
             (?c * sizeof_int) = Inr (data_StrictArray_int a)"
    using len k by (simp add: memcpy_int_all)
  show ?thesis
    by (simp add: from_StrictArray_int_def m f c)
qed

lemma from_StrictArray_wf:
  assumes wf: "wf_StrictArray a"
    and g: "grants h (sizeof_StrictArray + capacity_StrictArray a * type_size_StrictArray a)"
  shows "from_StrictArray h (Some a) =
     Inr \<lparr>ok = NO_ERROR,
          union = Obj \<lparr>size_StrictArray = size_StrictArray a,
                       capacity_StrictArray = capacity_StrictArray a,
                       type_size_StrictArray = junk_field h 2,
                       data_StrictArray =
                         take (unat (size_StrictArray a) * unat (type_size_StrictArray a))
                           (data_StrictArray a)
                         @ map (junk_byte h)
                             [unat (size_StrictArray a) * unat (type_size_StrictArray a)
                              ..< length (data_StrictArray a)]\<rparr>\<rparr>"
proof -
  let ?c = "capacity_StrictArray a" and ?t = "type_size_StrictArray a"
  let ?s = "size_StrictArray a"
  from wf have le: "?s \<le> ?c"
    and len: "length (data_StrictArray a) = unat ?c * unat ?t"
    and fit: "unat sizeof_StrictArray + unat ?c * unat ?t < 2 ^ 64"
    by (simp_all add: wf_StrictArray_def)
  have nbytes: "unat (sizeof_StrictArray + ?c * ?t) = 24 + unat ?c * unat ?t"
    using fit by (simp add: unat_block_size_t sizeof_StrictArray_def)
  have m: "malloc h (sizeof_StrictArray + ?c * ?t) = Some (24 + unat ?c * unat ?t)"
    using g nbytes by (simp add: malloc_def)
  have f: "fresh_StrictArray h (24 + unat ?c * unat ?t) =
     Inr \<lparr>size_StrictArray = junk_field h 0, capacity_StrictArray = junk_field h 1,
          type_size_StrictArray = junk_field h 2,
          data_StrictArray = map (junk_byte h) [0 ..< unat ?c * unat ?t]\<rparr>"
    by (simp add: fresh_StrictArray_def sizeof_StrictArray_def)
  from le have sc: "unat ?s * unat ?t \<le> unat ?c * unat ?t"
    by (simp add: word_le_nat_alt)
  from sc fit have "unat ?s * unat ?t < 2 ^ 64"
    by linarith
  then have k: "unat (?s * ?t) = unat ?s * unat ?t"
    by (rule unat_mult_size_t)
  have c: "memcpy_bytes (map (junk_byte h) [0 ..< unat ?c * unat ?t]) 0
             (Some (data_StrictArray a)) (?s * ?t) =
           Inr (take (unat ?s * unat ?t) (data_StrictArray a)
                @ map (junk_byte h) [unat ?s * unat ?t ..< unat ?c * unat ?t])"
    using len k sc by (simp add: memcpy_bytes_prefix drop_map)
  show ?thesis
    by (simp add: from_StrictArray_def m f c len)
qed

text \<open>
  C4. The claim: in both variants the clone of a non-null strict array is a success
  Result whose payload has the size and the capacity of the source, copies exactly the
  \<open>size\<close> elements in use, not the whole buffer, and equals the source element by
  element on \<open>[0, size)\<close>. Both variants return a success Result with the size and the
  capacity of the source (\<open>from_StrictArray_int_wf\<close>, \<open>from_StrictArray_wf\<close>). The
  rest fails in each variant.

  The int variant passes \<open>capacity * sizeof(int)\<close> to \<open>memcpy\<close>, where the generic
  variant passes \<open>size * type_size\<close>: the fresh block of 24 bytes holds \<open>0xAAAAAAAA\<close>
  in both cells, and after the clone of an array with size 1, capacity 2 and cells 7 and
  9 the second cell of the new array holds 9, the source's cell beyond its size.

  The generic variant never assigns \<open>type_size\<close> of the new object, which keeps what
  the fresh block held. After the clone of an array with two 2-byte elements in three
  slots, \<open>get\<close> at index 1 gives byte offset 2 on the source and an offset far behind
  the payload on the clone, and an append on the clone, which has room for one more
  element, reads and writes outside the memory it was given.
\<close>

theorem C4_strict_clone_diverges:
  "fresh_StrictArray_int heap_ok 24 =
     Inr \<lparr>size_StrictArray_int = 0xAAAAAAAAAAAAAAAA,
          capacity_StrictArray_int = 0xAAAAAAAAAAAAAAAA,
          data_StrictArray_int = [0xAAAAAAAA, 0xAAAAAAAA]\<rparr>
   \<and> from_StrictArray_int heap_ok
         (Some \<lparr>size_StrictArray_int = 1, capacity_StrictArray_int = 2,
                data_StrictArray_int = [7, 9]\<rparr>) =
       Inr \<lparr>ok = NO_ERROR,
            union = Obj \<lparr>size_StrictArray_int = 1, capacity_StrictArray_int = 2,
                         data_StrictArray_int = [7, 9]\<rparr>\<rparr>
   \<and> from_StrictArray heap_ok
         (Some \<lparr>size_StrictArray = 2, capacity_StrictArray = 3, type_size_StrictArray = 2,
                data_StrictArray = [1, 0, 2, 0, 0, 0]\<rparr>) =
       Inr \<lparr>ok = NO_ERROR,
            union = Obj \<lparr>size_StrictArray = 2, capacity_StrictArray = 3,
                         type_size_StrictArray = 0xAAAAAAAAAAAAAAAA,
                         data_StrictArray = [1, 0, 2, 0, 0xAA, 0xAA]\<rparr>\<rparr>
   \<and> get_item
         (Some \<lparr>size_StrictArray = 2, capacity_StrictArray = 3, type_size_StrictArray = 2,
                data_StrictArray = [1, 0, 2, 0, 0, 0]\<rparr>) 1 = Inr (Some 2)
   \<and> get_item
         (Some \<lparr>size_StrictArray = 2, capacity_StrictArray = 3,
                type_size_StrictArray = 0xAAAAAAAAAAAAAAAA,
                data_StrictArray = [1, 0, 2, 0, 0xAA, 0xAA]\<rparr>) 1
       = Inr (Some 12297829382473034410)
   \<and> push_back_StrictArray
         (Some \<lparr>size_StrictArray = 2, capacity_StrictArray = 3,
                type_size_StrictArray = 0xAAAAAAAAAAAAAAAA,
                data_StrictArray = [1, 0, 2, 0, 0xAA, 0xAA]\<rparr>) (Some [3, 0])
       = Inl OutOfBounds"
  by (simp add: from_StrictArray_int_def from_StrictArray_def malloc_def heap_ok_def
        fresh_StrictArray_int_def fresh_StrictArray_def memcpy_int_def memcpy_bytes_def
        sizeof_StrictArray_int_def sizeof_StrictArray_def sizeof_int_def upt_rec
        get_item_def push_back_StrictArray_def)

end
